theory Spec2Isabelle
  imports Main "HOL-Library.Multiset"
begin

section \<open>Data model of \<open>src/backend/server.js\<close>\<close>

text \<open>
  Object identifiers are opaque keys; time values are milliseconds since the epoch, as
  the \<open>Date\<close> objects of the source hold them. Each record follows one schema
  (\<open>userSchema\<close>, \<open>pipelineSchema\<close>, \<open>customerSchema\<close>, \<open>jobSchema\<close>); a field the
  schema does not require is an option.
\<close>

type_synonym oid = nat

record user =
  u_id :: oid
  githubId :: "string option"
  username :: string
  u_name :: string
  u_email :: string
  avatar :: "string option"
  u_createdAt :: int

record pipeline =
  p_id :: oid
  p_name :: string
  description :: "string option"
  steps :: "string list"
  p_userId :: oid
  p_createdAt :: int

record customer =
  c_id :: oid
  c_name :: string
  c_email :: string
  phone :: "string option"
  c_userId :: oid
  c_createdAt :: int

record job =
  j_id :: oid
  title :: string
  customerId :: oid
  pipelineId :: oid
  currentStep :: string
  status :: string
  dueDate :: "int option"
  progress :: int
  j_userId :: oid
  j_createdAt :: int

text \<open>
  Everything a handler can change or observe: the four collections, the next object
  identifier to hand out, the server console together with the session assignment (one
  timeline of events), and \<open>req.session.userId\<close> of the request being handled.
\<close>

datatype event =
  ConsoleLog string
  | ConsoleError string
  | Inserted string oid
  | SessionSet oid

record world =
  users :: "user list"
  pipelines :: "pipeline list"
  customers :: "customer list"
  jobs :: "job list"
  nextId :: oid
  trace :: "event list"
  session :: "oid option"

text \<open>
  The environment of one request: the successive readings of the clock; for the
  \<open>k\<close>-th round trip to the store, whether it fails and with which detail; whether
  the save of round trip \<open>k\<close> is still in flight at the moment a save started with it
  is refused; and the error, if any, that the middleware ahead of the routes raises
  (a body that does not parse, a session that cannot be loaded). The documents that a
  request builds take their \<open>createdAt\<close> from the first reading.
\<close>

record env =
  clock :: "nat \<Rightarrow> int"
  fault :: "nat \<Rightarrow> string option"
  in_flight :: "nat \<Rightarrow> bool"
  middleware_fault :: "string option"

datatype err =
  StorageError string
  | ValidationError string
  | DuplicateKeyError string
  | TypeError string

fun detail :: "err \<Rightarrow> string" where
  "detail (StorageError d) = d"
| "detail (ValidationError d) = d"
| "detail (DuplicateKeyError d) = d"
| "detail (TypeError d) = d"

definition db_op :: "env \<Rightarrow> nat \<Rightarrow> 'a \<Rightarrow> err + 'a" where
  "db_op e k v = (case fault e k of Some d \<Rightarrow> Inl (StorageError d) | None \<Rightarrow> Inr v)"

subsection \<open>Responses\<close>

record user_view =
  uv_id :: oid
  uv_name :: string
  uv_email :: string
  uv_avatar :: "string option"
  uv_githubUsername :: string

record job_view =
  v_id :: oid
  v_title :: string
  v_customer :: string
  v_pipeline :: string
  v_currentStep :: string
  v_status :: string
  v_dueDate :: "string option"
  v_progress :: int

record customer_view =
  cv_id :: oid
  cv_name :: string
  cv_email :: string
  cv_phone :: "string option"
  cv_activeJobs :: nat
  cv_totalJobs :: nat

record pipeline_view =
  pv_id :: oid
  pv_name :: string
  pv_description :: "string option"
  pv_steps :: "string list"
  pv_jobCount :: nat
  pv_createdAt :: string

datatype payload =
  PError string
  | PLogin user_view
  | PUser user_view
  | PStats nat nat nat nat
  | PJobs "job_view list"
  | PCustomers "customer_view list"
  | PPipelines "pipeline_view list"
  | PJobId oid
  | PCustomerId oid
  | PPipelineId oid
  | PSuccess

type_synonym response = "nat \<times> payload"

section \<open>Queries on the Job collection\<close>

text \<open>
  A filter document as the handlers pass it to \<open>Job.find\<close> and \<open>Job.countDocuments\<close>: a
  field that the document leaves out is \<open>None\<close>. A comparison on \<open>dueDate\<close> does not
  match a job that has none.
\<close>

record job_query =
  q_userId :: "oid option"
  q_customerId :: "oid option"
  q_pipelineId :: "oid option"
  q_status :: "string option"
  q_dueGte :: "int option"
  q_dueLte :: "int option"

definition any_job :: job_query where
  "any_job = \<lparr>q_userId = None, q_customerId = None, q_pipelineId = None,
     q_status = None, q_dueGte = None, q_dueLte = None\<rparr>"

definition field_is :: "'a option \<Rightarrow> 'a \<Rightarrow> bool" where
  "field_is q v = (case q of None \<Rightarrow> True | Some x \<Rightarrow> v = x)"

definition due_gte :: "int option \<Rightarrow> int option \<Rightarrow> bool" where
  "due_gte q d = (case q of None \<Rightarrow> True
     | Some lo \<Rightarrow> (case d of None \<Rightarrow> False | Some t \<Rightarrow> lo \<le> t))"

definition due_lte :: "int option \<Rightarrow> int option \<Rightarrow> bool" where
  "due_lte q d = (case q of None \<Rightarrow> True
     | Some hi \<Rightarrow> (case d of None \<Rightarrow> False | Some t \<Rightarrow> t \<le> hi))"

definition matches_job :: "job_query \<Rightarrow> job \<Rightarrow> bool" where
  "matches_job q j =
     (field_is (q_userId q) (j_userId j) \<and> field_is (q_customerId q) (customerId j)
      \<and> field_is (q_pipelineId q) (pipelineId j) \<and> field_is (q_status q) (status j)
      \<and> due_gte (q_dueGte q) (dueDate j) \<and> due_lte (q_dueLte q) (dueDate j))"

definition find_jobs :: "job_query \<Rightarrow> world \<Rightarrow> job list" where
  "find_jobs q w = filter (matches_job q) (jobs w)"

definition countDocuments_jobs :: "job_query \<Rightarrow> world \<Rightarrow> nat" where
  "countDocuments_jobs q w = length (find_jobs q w)"

definition find_customers :: "oid \<Rightarrow> world \<Rightarrow> customer list" where
  "find_customers uid w = filter (\<lambda>c. c_userId c = uid) (customers w)"

definition find_pipelines :: "oid \<Rightarrow> world \<Rightarrow> pipeline list" where
  "find_pipelines uid w = filter (\<lambda>p. p_userId p = uid) (pipelines w)"

definition findById_customer :: "oid \<Rightarrow> world \<Rightarrow> customer option" where
  "findById_customer i w = find (\<lambda>c. c_id c = i) (customers w)"

definition findById_pipeline :: "oid \<Rightarrow> world \<Rightarrow> pipeline option" where
  "findById_pipeline i w = find (\<lambda>p. p_id p = i) (pipelines w)"

definition findById_user :: "oid \<Rightarrow> world \<Rightarrow> user option" where
  "findById_user i w = find (\<lambda>u. u_id u = i) (users w)"

definition findOne_username :: "string \<Rightarrow> world \<Rightarrow> user option" where
  "findOne_username n w = find (\<lambda>u. username u = n) (users w)"

section \<open>Calendar dates\<close>

text \<open>
  The handlers render a date as \<open>d.toISOString().split('T')[0]\<close>: the part of the ISO
  8601 rendering in front of the \<open>T\<close>, in UTC. The built-in writes the year with four
  digits from 0 to 9999 and with a sign and six digits outside, the month and the day
  with two digits.
\<close>

definition digit :: "int \<Rightarrow> char" where
  "digit n = ''0123456789'' ! nat (n mod 10)"

definition pad2 :: "int \<Rightarrow> string" where
  "pad2 n = [digit (n div 10), digit n]"

definition pad4 :: "int \<Rightarrow> string" where
  "pad4 n = [digit (n div 1000), digit (n div 100), digit (n div 10), digit n]"

definition pad6 :: "int \<Rightarrow> string" where
  "pad6 n = [digit (n div 100000), digit (n div 10000)] @ pad4 n"

text \<open>
  The civil date of a day number (days since 1970-01-01), by eras of 400 years that
  begin on a first of March: the day of the era, the year of the era, the day of that
  year, and the month counted from March.
\<close>

definition day_of_era :: "int \<Rightarrow> int" where
  "day_of_era days = (days + 719468) mod 146097"

definition year_of_era :: "int \<Rightarrow> int" where
  "year_of_era doe = (doe - doe div 1460 + doe div 36524 - doe div 146096) div 365"

definition day_of_year :: "int \<Rightarrow> int" where
  "day_of_year doe =
     doe - (365 * year_of_era doe + year_of_era doe div 4 - year_of_era doe div 100)"

definition month_index :: "int \<Rightarrow> int" where
  "month_index doy = (5 * doy + 2) div 153"

definition month_of_days :: "int \<Rightarrow> int" where
  "month_of_days days =
     (if month_index (day_of_year (day_of_era days)) < 10
      then month_index (day_of_year (day_of_era days)) + 3
      else month_index (day_of_year (day_of_era days)) - 9)"

definition date_of_days :: "int \<Rightarrow> int" where
  "date_of_days days =
     day_of_year (day_of_era days)
       - (153 * month_index (day_of_year (day_of_era days)) + 2) div 5 + 1"

definition year_of_days :: "int \<Rightarrow> int" where
  "year_of_days days =
     year_of_era (day_of_era days) + ((days + 719468) div 146097) * 400
       + (if month_of_days days \<le> 2 then 1 else 0)"

definition iso_year :: "int \<Rightarrow> int" where
  "iso_year t = year_of_days (t div 86400000)"

definition year_str :: "int \<Rightarrow> string" where
  "year_str y =
     (if 0 \<le> y \<and> y \<le> 9999 then pad4 y
      else (if y < 0 then ''-'' else ''+'') @ pad6 \<bar>y\<bar>)"

definition iso_date :: "int \<Rightarrow> string" where
  "iso_date t =
     year_str (iso_year t) @ ''-'' @ pad2 (month_of_days (t div 86400000))
       @ ''-'' @ pad2 (date_of_days (t div 86400000))"

definition is_digit :: "char \<Rightarrow> bool" where
  "is_digit c = (c \<in> set ''0123456789'')"

definition is_ymd :: "string \<Rightarrow> bool" where
  "is_ymd s =
     (length s = 10 \<and> list_all is_digit (take 4 s) \<and> s ! 4 = CHR ''-''
      \<and> list_all is_digit (take 2 (drop 5 s)) \<and> s ! 7 = CHR ''-''
      \<and> list_all is_digit (drop 8 s))"

section \<open>Request handling\<close>

definition ebind :: "err + 'a \<Rightarrow> ('a \<Rightarrow> err + 'b) \<Rightarrow> err + 'b" where
  "ebind m f = (case m of Inl x \<Rightarrow> Inl x | Inr v \<Rightarrow> f v)"

fun map_err :: "('a \<Rightarrow> err + 'b) \<Rightarrow> 'a list \<Rightarrow> err + 'b list" where
  "map_err f [] = Inr []"
| "map_err f (x # xs) =
     (case f x of Inl e \<Rightarrow> Inl e
      | Inr y \<Rightarrow> (case map_err f xs of Inl e \<Rightarrow> Inl e | Inr ys \<Rightarrow> Inr (y # ys)))"

definition requireAuth :: "(oid \<Rightarrow> world \<Rightarrow> world \<times> response) \<Rightarrow> world \<Rightarrow> world \<times> response" where
  "requireAuth h w =
     (case session w of
        None \<Rightarrow> (w, (401, PError ''Authentication required''))
      | Some uid \<Rightarrow> h uid w)"

subsection \<open>GET /api/user\<close>

definition view_user :: "user \<Rightarrow> user_view" where
  "view_user u = \<lparr>uv_id = u_id u, uv_name = u_name u, uv_email = u_email u,
     uv_avatar = avatar u, uv_githubUsername = username u\<rparr>"

definition get_user :: "env \<Rightarrow> world \<Rightarrow> world \<times> response" where
  "get_user e = requireAuth (\<lambda>userId w.
     (case ebind (db_op e 0 (findById_user userId w))
             (\<lambda>r. case r of None \<Rightarrow> Inl (TypeError ''Cannot read properties of null'')
                   | Some u \<Rightarrow> Inr (view_user u)) of
        Inr v \<Rightarrow> (w, (200, PUser v))
      | Inl _ \<Rightarrow> (w, (500, PError ''Failed to fetch user''))))"

subsection \<open>GET /api/dashboard/stats\<close>

text \<open>
  The lower bound of the week is \<open>new Date()\<close>, the first reading of the clock, and the
  upper bound \<open>Date.now() + 7 * 24 * 60 * 60 * 1000\<close>, from the second reading.
\<close>

definition active_jobs_query :: "oid \<Rightarrow> job_query" where
  "active_jobs_query userId = any_job\<lparr>q_userId := Some userId, q_status := Some ''active''\<rparr>"

definition due_this_week_query :: "env \<Rightarrow> oid \<Rightarrow> job_query" where
  "due_this_week_query e userId =
     any_job\<lparr>q_userId := Some userId, q_status := Some ''active'',
       q_dueGte := Some (clock e 0),
       q_dueLte := Some (clock e (Suc 0) + 7 * 24 * 60 * 60 * 1000)\<rparr>"

definition get_dashboard_stats :: "env \<Rightarrow> world \<Rightarrow> world \<times> response" where
  "get_dashboard_stats e = requireAuth (\<lambda>userId w.
     (case ebind (db_op e 0 (countDocuments_jobs (active_jobs_query userId) w)) (\<lambda>activeJobs.
           ebind (db_op e 1 (length (find_customers userId w))) (\<lambda>totalCustomers.
           ebind (db_op e 2 (length (find_pipelines userId w))) (\<lambda>totalPipelines.
           ebind (db_op e 3 (countDocuments_jobs (due_this_week_query e userId) w)) (\<lambda>jobsDueThisWeek.
           Inr (PStats activeJobs totalCustomers totalPipelines jobsDueThisWeek))))) of
        Inr p \<Rightarrow> (w, (200, p))
      | Inl _ \<Rightarrow> (w, (500, PError ''Failed to fetch stats''))))"

subsection \<open>GET /api/jobs\<close>

text \<open>
  \<open>populate\<close> replaces a reference by the record it names, or by null when there is
  none; reading \<open>name\<close> of null throws. The sort is on \<open>createdAt\<close>, latest first,
  and jobs of one creation time stay in the order of the collection. The query with
  its two \<open>populate\<close> steps counts as one round trip.
\<close>

definition sort_createdAt_desc :: "job list \<Rightarrow> job list" where
  "sort_createdAt_desc js = sort_key (\<lambda>j. - j_createdAt j) js"

definition populate :: "world \<Rightarrow> job \<Rightarrow> job \<times> customer option \<times> pipeline option" where
  "populate w j = (j, findById_customer (customerId j) w, findById_pipeline (pipelineId j) w)"

definition render_due :: "int option \<Rightarrow> string option" where
  "render_due d = (case d of None \<Rightarrow> None | Some t \<Rightarrow> Some (iso_date t))"

definition format_job :: "job \<times> customer option \<times> pipeline option \<Rightarrow> err + job_view" where
  "format_job x =
     (case x of (j, c, p) \<Rightarrow>
        (case c of
           None \<Rightarrow> Inl (TypeError ''Cannot read properties of null'')
         | Some cust \<Rightarrow>
             (case p of
                None \<Rightarrow> Inl (TypeError ''Cannot read properties of null'')
              | Some pipe \<Rightarrow>
                  Inr \<lparr>v_id = j_id j, v_title = title j, v_customer = c_name cust,
                    v_pipeline = p_name pipe, v_currentStep = currentStep j,
                    v_status = status j, v_dueDate = render_due (dueDate j),
                    v_progress = progress j\<rparr>)))"

definition owned_jobs_sorted :: "oid \<Rightarrow> world \<Rightarrow> job list" where
  "owned_jobs_sorted userId w =
     sort_createdAt_desc (find_jobs (any_job\<lparr>q_userId := Some userId\<rparr>) w)"

definition get_jobs :: "env \<Rightarrow> world \<Rightarrow> world \<times> response" where
  "get_jobs e = requireAuth (\<lambda>userId w.
     (case ebind (db_op e 0 (map (populate w) (owned_jobs_sorted userId w)))
             (map_err format_job) of
        Inr vs \<Rightarrow> (w, (200, PJobs vs))
      | Inl _ \<Rightarrow> (w, (500, PError ''Failed to fetch jobs''))))"

section \<open>Documents and their validation\<close>

text \<open>
  A document as a model constructor builds it, before \<open>save\<close> validates it against its
  schema: a field the caller left undefined is \<open>None\<close>, the defaults of the schema are
  filled in. A required string must be present and not empty. A reference that does
  not cast to an object identifier counts as absent.
\<close>

datatype js_date = ValidDate int | InvalidDate

record user_doc =
  nu_id :: oid
  nu_githubId :: "string option"
  nu_username :: "string option"
  nu_name :: "string option"
  nu_email :: "string option"
  nu_avatar :: "string option"
  nu_createdAt :: int

record pipeline_doc =
  np_id :: oid
  np_name :: "string option"
  np_description :: "string option"
  np_steps :: "string list"
  np_userId :: "oid option"
  np_createdAt :: int

record customer_doc =
  nc_id :: oid
  nc_name :: "string option"
  nc_email :: "string option"
  nc_phone :: "string option"
  nc_userId :: "oid option"
  nc_createdAt :: int

record job_doc =
  nj_id :: oid
  nj_title :: "string option"
  nj_customerId :: "oid option"
  nj_pipelineId :: "oid option"
  nj_currentStep :: "string option"
  nj_status :: string
  nj_dueDate :: "js_date option"
  nj_progress :: int
  nj_userId :: "oid option"
  nj_createdAt :: int

definition required_str :: "string option \<Rightarrow> bool" where
  "required_str v = (case v of None \<Rightarrow> False | Some s \<Rightarrow> s \<noteq> [])"

definition date_value :: "js_date option \<Rightarrow> int option" where
  "date_value d = (case d of Some (ValidDate t) \<Rightarrow> Some t | _ \<Rightarrow> None)"

definition validate_user :: "user_doc \<Rightarrow> err + user" where
  "validate_user d =
     (if required_str (nu_username d) \<and> required_str (nu_name d) \<and> required_str (nu_email d)
      then Inr \<lparr>u_id = nu_id d, githubId = nu_githubId d, username = the (nu_username d),
             u_name = the (nu_name d), u_email = the (nu_email d), avatar = nu_avatar d,
             u_createdAt = nu_createdAt d\<rparr>
      else Inl (ValidationError ''User validation failed''))"

definition validate_pipeline :: "pipeline_doc \<Rightarrow> err + pipeline" where
  "validate_pipeline d =
     (if required_str (np_name d) \<and> np_userId d \<noteq> None
      then Inr \<lparr>p_id = np_id d, p_name = the (np_name d), description = np_description d,
             steps = np_steps d, p_userId = the (np_userId d), p_createdAt = np_createdAt d\<rparr>
      else Inl (ValidationError ''Pipeline validation failed''))"

definition validate_customer :: "customer_doc \<Rightarrow> err + customer" where
  "validate_customer d =
     (if required_str (nc_name d) \<and> required_str (nc_email d) \<and> nc_userId d \<noteq> None
      then Inr \<lparr>c_id = nc_id d, c_name = the (nc_name d), c_email = the (nc_email d),
             phone = nc_phone d, c_userId = the (nc_userId d), c_createdAt = nc_createdAt d\<rparr>
      else Inl (ValidationError ''Customer validation failed''))"

definition validate_job :: "job_doc \<Rightarrow> err + job" where
  "validate_job d =
     (if required_str (nj_title d) \<and> nj_customerId d \<noteq> None \<and> nj_pipelineId d \<noteq> None
         \<and> required_str (nj_currentStep d)
         \<and> nj_status d \<in> set [''active'', ''completed'', ''paused'']
         \<and> nj_dueDate d \<noteq> Some InvalidDate
         \<and> 0 \<le> nj_progress d \<and> nj_progress d \<le> 100
         \<and> nj_userId d \<noteq> None
      then Inr \<lparr>j_id = nj_id d, title = the (nj_title d), customerId = the (nj_customerId d),
             pipelineId = the (nj_pipelineId d), currentStep = the (nj_currentStep d),
             status = nj_status d, dueDate = date_value (nj_dueDate d),
             progress = nj_progress d, j_userId = the (nj_userId d),
             j_createdAt = nj_createdAt d\<rparr>
      else Inl (ValidationError ''Job validation failed''))"

text \<open>
  \<open>save\<close> validates, then makes the round trip \<open>k\<close> of the request. The only unique
  index is the one \<open>userSchema\<close> declares, on \<open>githubId\<close>.
\<close>

definition save_user :: "env \<Rightarrow> nat \<Rightarrow> user_doc \<Rightarrow> world \<Rightarrow> err + world" where
  "save_user e k d w =
     ebind (validate_user d) (\<lambda>u.
       ebind (db_op e k ()) (\<lambda>_.
         if \<exists>x \<in> set (users w). githubId x = githubId u
         then Inl (DuplicateKeyError ''E11000 duplicate key error: githubId'')
         else Inr (w\<lparr>users := users w @ [u], trace := trace w @ [Inserted ''User'' (u_id u)]\<rparr>)))"

definition save_pipeline :: "env \<Rightarrow> nat \<Rightarrow> pipeline_doc \<Rightarrow> world \<Rightarrow> err + world" where
  "save_pipeline e k d w =
     ebind (validate_pipeline d) (\<lambda>p.
       ebind (db_op e k ()) (\<lambda>_.
         Inr (w\<lparr>pipelines := pipelines w @ [p],
                trace := trace w @ [Inserted ''Pipeline'' (p_id p)]\<rparr>)))"

definition save_customer :: "env \<Rightarrow> nat \<Rightarrow> customer_doc \<Rightarrow> world \<Rightarrow> err + world" where
  "save_customer e k d w =
     ebind (validate_customer d) (\<lambda>c.
       ebind (db_op e k ()) (\<lambda>_.
         Inr (w\<lparr>customers := customers w @ [c],
                trace := trace w @ [Inserted ''Customer'' (c_id c)]\<rparr>)))"

definition save_job :: "env \<Rightarrow> nat \<Rightarrow> job_doc \<Rightarrow> world \<Rightarrow> err + world" where
  "save_job e k d w =
     ebind (validate_job d) (\<lambda>j.
       ebind (db_op e k ()) (\<lambda>_.
         Inr (w\<lparr>jobs := jobs w @ [j], trace := trace w @ [Inserted ''Job'' (j_id j)]\<rparr>)))"

text \<open>
  \<open>Promise.all\<close> over saves. All saves are started together. When none is refused,
  all have been made when the promise is fulfilled. When one is refused, the promise is
  rejected with the first refusal while the other saves go on: those no longer in
  flight have been made by then, the others are made later, after the caller has gone
  on. The result is the store at the moment the promise settles, the refusal, and the
  saves still in flight.
\<close>

definition settled :: "(world \<Rightarrow> err + world) \<Rightarrow> world \<Rightarrow> world" where
  "settled s w = (case s w of Inl x \<Rightarrow> w | Inr w' \<Rightarrow> w')"

definition land :: "(world \<Rightarrow> err + world) list \<Rightarrow> world \<Rightarrow> world" where
  "land ss w = fold settled ss w"

fun first_rejection :: "(nat \<times> (world \<Rightarrow> err + world)) list \<Rightarrow> world \<Rightarrow> err option" where
  "first_rejection [] w = None"
| "first_rejection (ks # ss) w =
     (case snd ks w of Inl x \<Rightarrow> Some x | Inr w' \<Rightarrow> first_rejection ss w)"

definition promise_all_saves ::
  "env \<Rightarrow> (nat \<times> (world \<Rightarrow> err + world)) list \<Rightarrow> world
     \<Rightarrow> world \<times> err option \<times> (world \<Rightarrow> err + world) list" where
  "promise_all_saves e ss w =
     (case first_rejection ss w of
        None \<Rightarrow> (land (map snd ss) w, None, [])
      | Some x \<Rightarrow>
          (land (map snd (filter (\<lambda>ks. \<not> in_flight e (fst ks)) ss)) w, Some x,
           map snd (filter (\<lambda>ks. in_flight e (fst ks)) ss)))"

section \<open>Writing and listing routes\<close>

subsection \<open>POST /api/jobs\<close>

text \<open>
  The body of the request, as far as the route can tell fields apart: the five fields
  the handler reads, and \<open>status\<close> and \<open>progress\<close>, which a client may send and the
  handler does not read. A due date is a number, or a text with the time value that
  the \<open>Date\<close> constructor parses from it (none for a text it cannot parse).
\<close>

datatype due_field = DueAbsent | DueNumber int | DueText string "int option"

record job_body =
  b_title :: "string option"
  b_customerId :: "oid option"
  b_pipelineId :: "oid option"
  b_currentStep :: "string option"
  b_dueDate :: due_field
  b_status :: "string option"
  b_progress :: "int option"

fun truthy :: "due_field \<Rightarrow> bool" where
  "truthy DueAbsent = False"
| "truthy (DueNumber n) = (n \<noteq> 0)"
| "truthy (DueText s r) = (s \<noteq> [])"

definition time_clip :: "int \<Rightarrow> js_date" where
  "time_clip t = (if \<bar>t\<bar> \<le> 8640000000000000 then ValidDate t else InvalidDate)"

fun new_Date :: "due_field \<Rightarrow> js_date" where
  "new_Date DueAbsent = InvalidDate"
| "new_Date (DueNumber n) = time_clip n"
| "new_Date (DueText s r) = (case r of None \<Rightarrow> InvalidDate | Some t \<Rightarrow> time_clip t)"

definition new_Job :: "env \<Rightarrow> job_body \<Rightarrow> oid \<Rightarrow> world \<Rightarrow> job_doc" where
  "new_Job e b userId w =
     \<lparr>nj_id = nextId w, nj_title = b_title b, nj_customerId = b_customerId b,
      nj_pipelineId = b_pipelineId b, nj_currentStep = b_currentStep b,
      nj_status = ''active'',
      nj_dueDate = (if truthy (b_dueDate b) then Some (new_Date (b_dueDate b)) else None),
      nj_progress = 0, nj_userId = Some userId, nj_createdAt = clock e 0\<rparr>"

definition post_jobs :: "env \<Rightarrow> job_body \<Rightarrow> world \<Rightarrow> world \<times> response" where
  "post_jobs e b = requireAuth (\<lambda>userId w.
     (let d = new_Job e b userId w; w1 = w\<lparr>nextId := Suc (nextId w)\<rparr> in
      case save_job e 0 d w1 of
        Inr w2 \<Rightarrow> (w2, (201, PJobId (nj_id d)))
      | Inl _ \<Rightarrow> (w1, (500, PError ''Failed to create job''))))"

subsection \<open>GET and POST /api/customers\<close>

fun customers_with_job_counts :: "env \<Rightarrow> world \<Rightarrow> nat \<Rightarrow> customer list \<Rightarrow> err + customer_view list" where
  "customers_with_job_counts e w k [] = Inr []"
| "customers_with_job_counts e w k (c # cs) =
     ebind (db_op e k (countDocuments_jobs
              (any_job\<lparr>q_customerId := Some (c_id c), q_status := Some ''active''\<rparr>) w)) (\<lambda>activeJobs.
     ebind (db_op e (k + 1) (countDocuments_jobs
              (any_job\<lparr>q_customerId := Some (c_id c)\<rparr>) w)) (\<lambda>totalJobs.
     ebind (customers_with_job_counts e w (k + 2) cs) (\<lambda>vs.
     Inr (\<lparr>cv_id = c_id c, cv_name = c_name c, cv_email = c_email c, cv_phone = phone c,
           cv_activeJobs = activeJobs, cv_totalJobs = totalJobs\<rparr> # vs))))"

definition get_customers :: "env \<Rightarrow> world \<Rightarrow> world \<times> response" where
  "get_customers e = requireAuth (\<lambda>userId w.
     (case ebind (db_op e 0 (find_customers userId w)) (customers_with_job_counts e w 1) of
        Inr vs \<Rightarrow> (w, (200, PCustomers vs))
      | Inl _ \<Rightarrow> (w, (500, PError ''Failed to fetch customers''))))"

record customer_body =
  cb_name :: "string option"
  cb_email :: "string option"
  cb_phone :: "string option"

definition post_customers :: "env \<Rightarrow> customer_body \<Rightarrow> world \<Rightarrow> world \<times> response" where
  "post_customers e b = requireAuth (\<lambda>userId w.
     (let d = \<lparr>nc_id = nextId w, nc_name = cb_name b, nc_email = cb_email b,
               nc_phone = cb_phone b, nc_userId = Some userId, nc_createdAt = clock e 0\<rparr>;
          w1 = w\<lparr>nextId := Suc (nextId w)\<rparr> in
      case save_customer e 0 d w1 of
        Inr w2 \<Rightarrow> (w2, (201, PCustomerId (nc_id d)))
      | Inl _ \<Rightarrow> (w1, (500, PError ''Failed to create customer''))))"

subsection \<open>GET and POST /api/pipelines\<close>

fun pipelines_with_job_counts :: "env \<Rightarrow> world \<Rightarrow> nat \<Rightarrow> pipeline list \<Rightarrow> err + pipeline_view list" where
  "pipelines_with_job_counts e w k [] = Inr []"
| "pipelines_with_job_counts e w k (p # ps) =
     ebind (db_op e k (countDocuments_jobs
              (any_job\<lparr>q_pipelineId := Some (p_id p), q_status := Some ''active''\<rparr>) w)) (\<lambda>jobCount.
     ebind (pipelines_with_job_counts e w (k + 1) ps) (\<lambda>vs.
     Inr (\<lparr>pv_id = p_id p, pv_name = p_name p, pv_description = description p,
           pv_steps = steps p, pv_jobCount = jobCount,
           pv_createdAt = iso_date (p_createdAt p)\<rparr> # vs)))"

definition get_pipelines :: "env \<Rightarrow> world \<Rightarrow> world \<times> response" where
  "get_pipelines e = requireAuth (\<lambda>userId w.
     (case ebind (db_op e 0 (find_pipelines userId w)) (pipelines_with_job_counts e w 1) of
        Inr vs \<Rightarrow> (w, (200, PPipelines vs))
      | Inl _ \<Rightarrow> (w, (500, PError ''Failed to fetch pipelines''))))"

record pipeline_body =
  pb_name :: "string option"
  pb_description :: "string option"
  pb_steps :: "string list"

definition post_pipelines :: "env \<Rightarrow> pipeline_body \<Rightarrow> world \<Rightarrow> world \<times> response" where
  "post_pipelines e b = requireAuth (\<lambda>userId w.
     (let d = \<lparr>np_id = nextId w, np_name = pb_name b, np_description = pb_description b,
               np_steps = pb_steps b, np_userId = Some userId, np_createdAt = clock e 0\<rparr>;
          w1 = w\<lparr>nextId := Suc (nextId w)\<rparr> in
      case save_pipeline e 0 d w1 of
        Inr w2 \<Rightarrow> (w2, (201, PPipelineId (np_id d)))
      | Inl _ \<Rightarrow> (w1, (500, PError ''Failed to create pipeline''))))"

section \<open>Login and sample data\<close>

text \<open>
  \<open>createSampleData\<close> builds and saves two pipelines, three customers and three jobs,
  in three groups; a failure in a group is caught, written to the console, and ends the
  function. Its round trips are numbered from \<open>k\<close>. The due dates are the time values
  of \<open>new Date('2025-07-01')\<close>, \<open>new Date('2025-07-15')\<close> and
  \<open>new Date('2025-06-20')\<close>; the console lines are kept without the values appended
  to them, except for the detail of an error.
\<close>

definition sample_pipeline :: "env \<Rightarrow> oid \<Rightarrow> oid \<Rightarrow> string \<Rightarrow> string \<Rightarrow> string list \<Rightarrow> pipeline_doc" where
  "sample_pipeline e i userId n dsc st =
     \<lparr>np_id = i, np_name = Some n, np_description = Some dsc, np_steps = st,
      np_userId = Some userId, np_createdAt = clock e 0\<rparr>"

definition sample_customer :: "env \<Rightarrow> oid \<Rightarrow> oid \<Rightarrow> string \<Rightarrow> string \<Rightarrow> string \<Rightarrow> customer_doc" where
  "sample_customer e i userId n em ph =
     \<lparr>nc_id = i, nc_name = Some n, nc_email = Some em, nc_phone = Some ph,
      nc_userId = Some userId, nc_createdAt = clock e 0\<rparr>"

definition sample_job :: "env \<Rightarrow> oid \<Rightarrow> oid \<Rightarrow> string \<Rightarrow> oid \<Rightarrow> oid \<Rightarrow> string \<Rightarrow> int \<Rightarrow> int \<Rightarrow> job_doc" where
  "sample_job e i userId t c p st due pr =
     \<lparr>nj_id = i, nj_title = Some t, nj_customerId = Some c, nj_pipelineId = Some p,
      nj_currentStep = Some st, nj_status = ''active'', nj_dueDate = Some (time_clip due),
      nj_progress = pr, nj_userId = Some userId, nj_createdAt = clock e 0\<rparr>"

definition caught :: "world \<Rightarrow> err \<Rightarrow> world" where
  "caught w x = w\<lparr>trace := trace w @ [ConsoleError (''Error creating sample data: '' @ detail x)]\<rparr>"

definition createSampleData ::
  "env \<Rightarrow> nat \<Rightarrow> oid \<Rightarrow> world \<Rightarrow> world \<times> (world \<Rightarrow> err + world) list" where
  "createSampleData e k userId w =
     (let webPipeline = sample_pipeline e (nextId w) userId ''Web Development''
            ''Standard web development workflow''
            [''Initial Contact'', ''Requirements'', ''Design'', ''Development'', ''Testing'',
             ''Deployment''];
          mobilePipeline = sample_pipeline e (nextId w + 1) userId ''Mobile App Development''
            ''Mobile application development process''
            [''Discovery'', ''Wireframes'', ''UI/UX'', ''Development'', ''Beta Testing'',
             ''App Store''];
          w1 = w\<lparr>nextId := nextId w + 2\<rparr>
      in case promise_all_saves e
                [(k, save_pipeline e k webPipeline),
                 (k + 1, save_pipeline e (k + 1) mobilePipeline)] w1 of
           (w2, Some x, late) \<Rightarrow> (caught w2 x, late)
         | (w2, None, late) \<Rightarrow>
        (let customer1 = sample_customer e (nextId w2) userId ''ABC Corp''
               ''contact@abccorp.com'' ''+1-555-0123'';
             customer2 = sample_customer e (nextId w2 + 1) userId ''Tasty Bites''
               ''info@tastybites.com'' ''+1-555-0456'';
             customer3 = sample_customer e (nextId w2 + 2) userId ''Jane Smith''
               ''jane@example.com'' ''+1-555-0789'';
             w3 = w2\<lparr>nextId := nextId w2 + 3\<rparr>
         in case promise_all_saves e
                   [(k + 2, save_customer e (k + 2) customer1),
                    (k + 3, save_customer e (k + 3) customer2),
                    (k + 4, save_customer e (k + 4) customer3)] w3 of
              (w4, Some x, late) \<Rightarrow> (caught w4 x, late)
            | (w4, None, late) \<Rightarrow>
           (let job1 = sample_job e (nextId w4) userId ''E-commerce Website''
                  (nc_id customer1) (np_id webPipeline) ''Development'' 1751328000000 60;
                job2 = sample_job e (nextId w4 + 1) userId ''Restaurant App''
                  (nc_id customer2) (np_id mobilePipeline) ''UI/UX'' 1752537600000 30;
                job3 = sample_job e (nextId w4 + 2) userId ''Portfolio Site''
                  (nc_id customer3) (np_id webPipeline) ''Testing'' 1750377600000 85;
                w5 = w4\<lparr>nextId := nextId w4 + 3\<rparr>
            in case promise_all_saves e
                      [(k + 5, save_job e (k + 5) job1), (k + 6, save_job e (k + 6) job2),
                       (k + 7, save_job e (k + 7) job3)] w5 of
                 (w6, Some x, late) \<Rightarrow> (caught w6 x, late)
               | (w6, None, late) \<Rightarrow>
                   (w6\<lparr>trace := trace w6 @ [ConsoleLog ''Sample data created for user'']\<rparr>,
                    late))))"

text \<open>
  The login accepts the one username \<open>desivar\<close>. A request may come without a body
  object, and then reading \<open>username\<close> from it throws inside the \<open>try\<close>. A failure
  outside \<open>createSampleData\<close> is caught by the handler, written to the console and
  answered with status 500. The saves of \<open>createSampleData\<close> that are still in flight
  when it returns are made after the session is assigned.
\<close>

datatype login_body = NoBody | Body "string option"

definition new_User :: "env \<Rightarrow> world \<Rightarrow> user_doc" where
  "new_User e w =
     \<lparr>nu_id = nextId w, nu_githubId = Some ''desivar-github-id'', nu_username = Some ''desivar'',
      nu_name = Some ''Desivar Developer'', nu_email = Some ''desivar@example.com'',
      nu_avatar = Some ''https://avatars.githubusercontent.com/u/desivar?v=4'',
      nu_createdAt = clock e 0\<rparr>"

definition login_ok :: "user \<Rightarrow> world \<Rightarrow> world \<times> response" where
  "login_ok u w =
     (w\<lparr>session := Some (u_id u), trace := trace w @ [SessionSet (u_id u)]\<rparr>,
      (200, PLogin (view_user u)))"

definition login_failed :: "err \<Rightarrow> world \<Rightarrow> world \<times> response" where
  "login_failed x w =
     (w\<lparr>trace := trace w @ [ConsoleError (''Auth error: '' @ detail x)]\<rparr>,
      (500, PError ''Authentication failed''))"

definition seeded_login :: "user \<Rightarrow> world \<times> (world \<Rightarrow> err + world) list \<Rightarrow> world \<times> response" where
  "seeded_login u x = (land (snd x) (fst (login_ok u (fst x))), snd (login_ok u (fst x)))"

definition post_auth_github :: "env \<Rightarrow> login_body \<Rightarrow> world \<Rightarrow> world \<times> response" where
  "post_auth_github e body w =
     (case body of
        NoBody \<Rightarrow> login_failed (TypeError ''Cannot destructure property username'') w
      | Body uname \<Rightarrow>
     (if uname \<noteq> Some ''desivar'' then (w, (401, PError ''Invalid username''))
      else case db_op e 0 (findOne_username ''desivar'' w) of
             Inl x \<Rightarrow> login_failed x w
           | Inr (Some u) \<Rightarrow> login_ok u w
           | Inr None \<Rightarrow>
               (let d = new_User e w; w1 = w\<lparr>nextId := Suc (nextId w)\<rparr> in
                case ebind (validate_user d) (\<lambda>u. ebind (save_user e 1 d w1) (\<lambda>w2. Inr (u, w2))) of
                  Inl x \<Rightarrow> login_failed x w1
                | Inr (u, w2) \<Rightarrow> seeded_login u (createSampleData e 2 (u_id u) w2))))"

definition post_auth_logout :: "env \<Rightarrow> world \<Rightarrow> world \<times> response" where
  "post_auth_logout e w =
     (case fault e 0 of
        Some d \<Rightarrow> (w, (500, PError ''Could not log out''))
      | None \<Rightarrow> (w\<lparr>session := None\<rparr>, (200, PSuccess)))"

section \<open>Routing and sequences of requests\<close>

text \<open>
  A request passes the middleware before it reaches its route: an error raised there
  goes to the error-handling middleware, which writes it to the console and answers
  with status 500. A request to one of the POST routes under \<open>/api\<close> may come without a
  body object; reading the fields from it then throws inside the \<open>try\<close> of the
  handler, behind \<open>requireAuth\<close>.
\<close>

datatype route =
  AuthGithub login_body
  | AuthLogout
  | GetUser
  | GetDashboardStats
  | GetJobs
  | PostJobs "job_body option"
  | GetCustomers
  | PostCustomers "customer_body option"
  | GetPipelines
  | PostPipelines "pipeline_body option"

definition no_body :: "string \<Rightarrow> world \<Rightarrow> world \<times> response" where
  "no_body msg = requireAuth (\<lambda>userId w. (w, (500, PError msg)))"

definition route_handler :: "env \<Rightarrow> route \<Rightarrow> world \<Rightarrow> world \<times> response" where
  "route_handler e r w =
     (case r of
        AuthGithub b \<Rightarrow> post_auth_github e b w
      | AuthLogout \<Rightarrow> post_auth_logout e w
      | GetUser \<Rightarrow> get_user e w
      | GetDashboardStats \<Rightarrow> get_dashboard_stats e w
      | GetJobs \<Rightarrow> get_jobs e w
      | PostJobs None \<Rightarrow> no_body ''Failed to create job'' w
      | PostJobs (Some b) \<Rightarrow> post_jobs e b w
      | GetCustomers \<Rightarrow> get_customers e w
      | PostCustomers None \<Rightarrow> no_body ''Failed to create customer'' w
      | PostCustomers (Some b) \<Rightarrow> post_customers e b w
      | GetPipelines \<Rightarrow> get_pipelines e w
      | PostPipelines None \<Rightarrow> no_body ''Failed to create pipeline'' w
      | PostPipelines (Some b) \<Rightarrow> post_pipelines e b w)"

definition error_middleware :: "string \<Rightarrow> world \<Rightarrow> world \<times> response" where
  "error_middleware d w =
     (w\<lparr>trace := trace w @ [ConsoleError d]\<rparr>, (500, PError ''Internal server error''))"

definition handle :: "env \<Rightarrow> route \<Rightarrow> world \<Rightarrow> world \<times> response" where
  "handle e r w =
     (case middleware_fault e of
        Some d \<Rightarrow> error_middleware d w
      | None \<Rightarrow> route_handler e r w)"

text \<open>
  A request arrives with the session of its client and its environment. The store of
  a deployment is what a sequence of requests makes of the empty store.
\<close>

definition empty_world :: world where
  "empty_world = \<lparr>users = [], pipelines = [], customers = [], jobs = [], nextId = 0,
     trace = [], session = None\<rparr>"

fun run :: "(oid option \<times> env \<times> route) list \<Rightarrow> world \<Rightarrow> world" where
  "run [] w = w"
| "run ((s, e, r) # rs) w = run rs (fst (handle e r (w\<lparr>session := s\<rparr>)))"

section \<open>Specification-side notions and sample stores\<close>

definition due_within :: "int \<Rightarrow> int \<Rightarrow> job \<Rightarrow> bool" where
  "due_within lo hi j = (case dueDate j of None \<Rightarrow> False | Some t \<Rightarrow> lo \<le> t \<and> t \<le> hi)"

definition round_trips_ok :: "env \<Rightarrow> nat \<Rightarrow> bool" where
  "round_trips_ok e n = list_all (\<lambda>k. fault e k = None) [0..<n]"

definition w_stats :: world where
  "w_stats = empty_world\<lparr>session := Some 1, jobs :=
     [\<lparr>j_id = 10, title = ''a'', customerId = 3, pipelineId = 4, currentStep = ''s'',
       status = ''active'', dueDate = Some 5000, progress = 0, j_userId = 1, j_createdAt = 0\<rparr>,
      \<lparr>j_id = 11, title = ''b'', customerId = 3, pipelineId = 4, currentStep = ''s'',
       status = ''active'', dueDate = None, progress = 0, j_userId = 1, j_createdAt = 0\<rparr>,
      \<lparr>j_id = 12, title = ''c'', customerId = 3, pipelineId = 4, currentStep = ''s'',
       status = ''paused'', dueDate = Some 5000, progress = 0, j_userId = 1, j_createdAt = 0\<rparr>,
      \<lparr>j_id = 13, title = ''d'', customerId = 3, pipelineId = 4, currentStep = ''s'',
       status = ''active'', dueDate = Some 5000, progress = 0, j_userId = 2, j_createdAt = 0\<rparr>]\<rparr>"

definition env_at :: "int \<Rightarrow> env" where
  "env_at t = \<lparr>clock = (\<lambda>_. t), fault = (\<lambda>_. None), in_flight = (\<lambda>_. False),
     middleware_fault = None\<rparr>"


text \<open>
  What a listing entry must say about the job it stands for: the names are those of
  the records the job refers to, and a due date is absent or rendered.
\<close>

definition listed :: "world \<Rightarrow> job \<Rightarrow> job_view \<Rightarrow> bool" where
  "listed w j v =
     (v_id v = j_id j \<and> v_title v = title j \<and> v_currentStep v = currentStep j
      \<and> v_status v = status j \<and> v_progress v = progress j
      \<and> (\<exists>c \<in> set (customers w). c_id c = customerId j \<and> v_customer v = c_name c)
      \<and> (\<exists>p \<in> set (pipelines w). p_id p = pipelineId j \<and> v_pipeline v = p_name p)
      \<and> (case dueDate j of
           None \<Rightarrow> v_dueDate v = None
         | Some t \<Rightarrow> v_dueDate v = Some (iso_date t)))"

definition w_two :: world where
  "w_two = empty_world\<lparr>
     customers := [\<lparr>c_id = 3, c_name = ''ABC Corp'', c_email = ''contact@abccorp.com'',
                    phone = None, c_userId = 1, c_createdAt = 0\<rparr>],
     pipelines := [\<lparr>p_id = 4, p_name = ''Web Development'', description = None, steps = [],
                    p_userId = 1, p_createdAt = 0\<rparr>],
     jobs :=
     [\<lparr>j_id = 10, title = ''a'', customerId = 3, pipelineId = 4, currentStep = ''s'',
       status = ''active'', dueDate = Some 1751328000000, progress = 60, j_userId = 1,
       j_createdAt = 100\<rparr>,
      \<lparr>j_id = 11, title = ''b'', customerId = 3, pipelineId = 4, currentStep = ''s'',
       status = ''active'', dueDate = None, progress = 0, j_userId = 2, j_createdAt = 200\<rparr>,
      \<lparr>j_id = 12, title = ''c'', customerId = 3, pipelineId = 4, currentStep = ''s'',
       status = ''paused'', dueDate = None, progress = 0, j_userId = 1, j_createdAt = 300\<rparr>]\<rparr>"

text \<open>
  The due date of an entry against the due date of its job: absent with it, and else a
  text that is a \<open>YYYY-MM-DD\<close> date exactly when the year has four digits.
\<close>

definition due_rendered :: "job \<Rightarrow> job_view \<Rightarrow> bool" where
  "due_rendered j v =
     (case dueDate j of
        None \<Rightarrow> v_dueDate v = None
      | Some t \<Rightarrow>
          (case v_dueDate v of
             None \<Rightarrow> False
           | Some s \<Rightarrow> is_ymd s = (0 \<le> iso_year t \<and> iso_year t \<le> 9999)))"

definition far_body :: job_body where
  "far_body = \<lparr>b_title = Some ''Archive'', b_customerId = Some 3, b_pipelineId = Some 4,
     b_currentStep = Some ''Design'', b_dueDate = DueNumber 253402300800000,
     b_status = None, b_progress = None\<rparr>"

definition w_far :: world where
  "w_far = fst (post_jobs (env_at 0) far_body (empty_world\<lparr>
     customers := [\<lparr>c_id = 3, c_name = ''ABC Corp'', c_email = ''contact@abccorp.com'',
                    phone = None, c_userId = 1, c_createdAt = 0\<rparr>],
     pipelines := [\<lparr>p_id = 4, p_name = ''Web Development'', description = None, steps = [],
                    p_userId = 1, p_createdAt = 0\<rparr>],
     nextId := 5, session := Some 1\<rparr>))"

text \<open>
  A store where user 1 owns one customer and one pipeline and no job, and a request
  of user 2 that names both.
\<close>

definition w_owner :: world where
  "w_owner = empty_world\<lparr>
     customers := [\<lparr>c_id = 3, c_name = ''ABC Corp'', c_email = ''contact@abccorp.com'',
                    phone = None, c_userId = 1, c_createdAt = 0\<rparr>],
     pipelines := [\<lparr>p_id = 4, p_name = ''Web Development'', description = None, steps = [],
                    p_userId = 1, p_createdAt = 0\<rparr>],
     nextId := 5\<rparr>"

definition cross_body :: job_body where
  "cross_body = \<lparr>b_title = Some ''Intruder'', b_customerId = Some 3, b_pipelineId = Some 4,
     b_currentStep = Some ''Design'', b_dueDate = DueAbsent,
     b_status = Some ''completed'', b_progress = Some 150\<rparr>"

definition stored_due :: "due_field \<Rightarrow> int option" where
  "stored_due f = (if truthy f then date_value (Some (new_Date f)) else None)"

text \<open>The records that \<open>createSampleData\<close> writes, by the identifier they get.\<close>

definition seeded_pipelines :: "env \<Rightarrow> oid \<Rightarrow> oid \<Rightarrow> pipeline list" where
  "seeded_pipelines e userId n =
     [\<lparr>p_id = n, p_name = ''Web Development'',
       description = Some ''Standard web development workflow'',
       steps = [''Initial Contact'', ''Requirements'', ''Design'', ''Development'', ''Testing'',
                ''Deployment''],
       p_userId = userId, p_createdAt = clock e 0\<rparr>,
      \<lparr>p_id = n + 1, p_name = ''Mobile App Development'',
       description = Some ''Mobile application development process'',
       steps = [''Discovery'', ''Wireframes'', ''UI/UX'', ''Development'', ''Beta Testing'',
                ''App Store''],
       p_userId = userId, p_createdAt = clock e 0\<rparr>]"

definition seeded_customers :: "env \<Rightarrow> oid \<Rightarrow> oid \<Rightarrow> customer list" where
  "seeded_customers e userId n =
     [\<lparr>c_id = n + 2, c_name = ''ABC Corp'', c_email = ''contact@abccorp.com'',
       phone = Some ''+1-555-0123'', c_userId = userId, c_createdAt = clock e 0\<rparr>,
      \<lparr>c_id = n + 3, c_name = ''Tasty Bites'', c_email = ''info@tastybites.com'',
       phone = Some ''+1-555-0456'', c_userId = userId, c_createdAt = clock e 0\<rparr>,
      \<lparr>c_id = n + 4, c_name = ''Jane Smith'', c_email = ''jane@example.com'',
       phone = Some ''+1-555-0789'', c_userId = userId, c_createdAt = clock e 0\<rparr>]"

definition seeded_jobs :: "env \<Rightarrow> oid \<Rightarrow> oid \<Rightarrow> job list" where
  "seeded_jobs e userId n =
     [\<lparr>j_id = n + 5, title = ''E-commerce Website'', customerId = n + 2, pipelineId = n,
       currentStep = ''Development'', status = ''active'', dueDate = Some 1751328000000,
       progress = 60, j_userId = userId, j_createdAt = clock e 0\<rparr>,
      \<lparr>j_id = n + 6, title = ''Restaurant App'', customerId = n + 3, pipelineId = n + 1,
       currentStep = ''UI/UX'', status = ''active'', dueDate = Some 1752537600000,
       progress = 30, j_userId = userId, j_createdAt = clock e 0\<rparr>,
      \<lparr>j_id = n + 7, title = ''Portfolio Site'', customerId = n + 4, pipelineId = n,
       currentStep = ''Testing'', status = ''active'', dueDate = Some 1750377600000,
       progress = 85, j_userId = userId, j_createdAt = clock e 0\<rparr>]"

definition seeded_events :: "oid \<Rightarrow> event list" where
  "seeded_events n =
     [Inserted ''Pipeline'' n, Inserted ''Pipeline'' (n + 1), Inserted ''Customer'' (n + 2),
      Inserted ''Customer'' (n + 3), Inserted ''Customer'' (n + 4), Inserted ''Job'' (n + 5),
      Inserted ''Job'' (n + 6), Inserted ''Job'' (n + 7),
      ConsoleLog ''Sample data created for user'']"

definition desivar :: "env \<Rightarrow> oid \<Rightarrow> user" where
  "desivar e n =
     \<lparr>u_id = n, githubId = Some ''desivar-github-id'', username = ''desivar'',
      u_name = ''Desivar Developer'', u_email = ''desivar@example.com'',
      avatar = Some ''https://avatars.githubusercontent.com/u/desivar?v=4'',
      u_createdAt = clock e 0\<rparr>"

text \<open>The store after a first login that found the store \<open>w\<close> and no failure.\<close>

definition first_login_world :: "env \<Rightarrow> world \<Rightarrow> world" where
  "first_login_world e w =
     w\<lparr>users := users w @ [desivar e (nextId w)],
       pipelines := pipelines w @ seeded_pipelines e (nextId w) (nextId w + 1),
       customers := customers w @ seeded_customers e (nextId w) (nextId w + 1),
       jobs := jobs w @ seeded_jobs e (nextId w) (nextId w + 1),
       nextId := nextId w + 9,
       trace := trace w @ Inserted ''User'' (nextId w) # seeded_events (nextId w + 1)
                  @ [SessionSet (nextId w)],
       session := Some (nextId w)\<rparr>"

definition same_records :: "world \<Rightarrow> world \<Rightarrow> bool" where
  "same_records v w =
     (users v = users w \<and> pipelines v = pipelines w \<and> customers v = customers w
      \<and> jobs v = jobs w)"

text \<open>The range of the progress of a job, and of the jobs of a store.\<close>

definition in_range :: "int \<Rightarrow> bool" where
  "in_range p = (0 \<le> p \<and> p \<le> 100)"

definition jobs_ok :: "world \<Rightarrow> bool" where
  "jobs_ok w = list_all (\<lambda>j. in_range (progress j)) (jobs w)"

definition over_body :: job_body where
  "over_body = \<lparr>b_title = Some ''Overdone'', b_customerId = Some 3, b_pipelineId = Some 1,
     b_currentStep = Some ''Design'', b_dueDate = DueAbsent,
     b_status = None, b_progress = Some 150\<rparr>"

definition over_doc :: job_doc where
  "over_doc = \<lparr>nj_id = 9, nj_title = Some ''Overdone'', nj_customerId = Some 3,
     nj_pipelineId = Some 1, nj_currentStep = Some ''Design'', nj_status = ''active'',
     nj_dueDate = None, nj_progress = 150, nj_userId = Some 0, nj_createdAt = 0\<rparr>"

definition over_run :: "(oid option \<times> env \<times> route) list" where
  "over_run = [(None, env_at 0, AuthGithub (Body (Some ''desivar''))),
               (Some 0, env_at 0, PostJobs (Some over_body))]"

definition over_listing :: "job_view list" where
  "over_listing =
     [\<lparr>v_id = 6, v_title = ''E-commerce Website'', v_customer = ''ABC Corp'',
       v_pipeline = ''Web Development'', v_currentStep = ''Development'', v_status = ''active'',
       v_dueDate = Some ''2025-07-01'', v_progress = 60\<rparr>,
      \<lparr>v_id = 7, v_title = ''Restaurant App'', v_customer = ''Tasty Bites'',
       v_pipeline = ''Mobile App Development'', v_currentStep = ''UI/UX'', v_status = ''active'',
       v_dueDate = Some ''2025-07-15'', v_progress = 30\<rparr>,
      \<lparr>v_id = 8, v_title = ''Portfolio Site'', v_customer = ''Jane Smith'',
       v_pipeline = ''Web Development'', v_currentStep = ''Testing'', v_status = ''active'',
       v_dueDate = Some ''2025-06-20'', v_progress = 85\<rparr>,
      \<lparr>v_id = 9, v_title = ''Overdone'', v_customer = ''ABC Corp'',
       v_pipeline = ''Web Development'', v_currentStep = ''Design'', v_status = ''active'',
       v_dueDate = None, v_progress = 0\<rparr>]"

text \<open>
  The store of a first login once the user is saved, which is the store that
  \<open>createSampleData\<close> starts from; events that assign no session; an environment whose
  round trip \<open>n\<close> fails.
\<close>

definition user_saved :: "env \<Rightarrow> world \<Rightarrow> world" where
  "user_saved e w =
     w\<lparr>nextId := Suc (nextId w), users := users w @ [desivar e (nextId w)],
       trace := trace w @ [Inserted ''User'' (nextId w)]\<rparr>"

definition no_session_event :: "event list \<Rightarrow> bool" where
  "no_session_event evs = list_all (\<lambda>ev. case ev of SessionSet u \<Rightarrow> False | _ \<Rightarrow> True) evs"

definition env_failing :: "nat \<Rightarrow> string \<Rightarrow> env" where
  "env_failing n d = \<lparr>clock = (\<lambda>_. 0), fault = (\<lambda>k. if k = n then Some d else None),
     in_flight = (\<lambda>_. False), middleware_fault = None\<rparr>"

text \<open>
  The routes behind \<open>requireAuth\<close>, and the message that the \<open>catch\<close> block of each
  route sends.
\<close>

definition authenticated :: "route \<Rightarrow> bool" where
  "authenticated r = (case r of AuthGithub n \<Rightarrow> False | AuthLogout \<Rightarrow> False | _ \<Rightarrow> True)"

definition generic_message :: "route \<Rightarrow> string" where
  "generic_message r =
     (case r of
        AuthGithub n \<Rightarrow> ''Authentication failed''
      | AuthLogout \<Rightarrow> ''Could not log out''
      | GetUser \<Rightarrow> ''Failed to fetch user''
      | GetDashboardStats \<Rightarrow> ''Failed to fetch stats''
      | GetJobs \<Rightarrow> ''Failed to fetch jobs''
      | PostJobs b \<Rightarrow> ''Failed to create job''
      | GetCustomers \<Rightarrow> ''Failed to fetch customers''
      | PostCustomers b \<Rightarrow> ''Failed to create customer''
      | GetPipelines \<Rightarrow> ''Failed to fetch pipelines''
      | PostPipelines b \<Rightarrow> ''Failed to create pipeline'')"

text \<open>
  The number of round trips to the store that a route behind \<open>requireAuth\<close> makes
  for the session user \<open>uid\<close> when none fails.
\<close>

definition round_trips :: "route \<Rightarrow> oid \<Rightarrow> world \<Rightarrow> nat" where
  "round_trips r uid w =
     (case r of
        GetDashboardStats \<Rightarrow> 4
      | GetCustomers \<Rightarrow> 1 + 2 * length (find_customers uid w)
      | GetPipelines \<Rightarrow> 1 + length (find_pipelines uid w)
      | _ \<Rightarrow> 1)"

text \<open>
  Events that are insertions only; an environment in which round trip 2 fails while the
  save of round trip 3 is still in flight.
\<close>

definition only_inserts :: "event list \<Rightarrow> bool" where
  "only_inserts evs = list_all (\<lambda>ev. case ev of Inserted c i \<Rightarrow> True | _ \<Rightarrow> False) evs"

definition env_racing :: env where
  "env_racing = \<lparr>clock = (\<lambda>_. 0), fault = (\<lambda>k. if k = 2 then Some ''ECONNRESET'' else None),
     in_flight = (\<lambda>k. k = 3), middleware_fault = None\<rparr>"

definition env_no_session :: env where
  "env_no_session = \<lparr>clock = (\<lambda>_. 0), fault = (\<lambda>_. None), in_flight = (\<lambda>_. False),
     middleware_fault = Some ''MongoServerSelectionError''\<rparr>"









section \<open>Auxiliary lemmas\<close>

lemma length_filter_mono:
  "(\<And>x. x \<in> set xs \<Longrightarrow> P x \<Longrightarrow> Q x) \<Longrightarrow> length (filter P xs) \<le> length (filter Q xs)"
  by (induction xs) auto

lemma ebind_Inr [simp]: "ebind (Inr v) f = f v"
  by (simp add: ebind_def)

lemma ebind_Inl [simp]: "ebind (Inl x) f = Inl x"
  by (simp add: ebind_def)

lemma db_op_ok: "fault e k = None \<Longrightarrow> db_op e k v = Inr v"
  by (simp add: db_op_def)

lemma db_op_fail: "fault e k = Some d \<Longrightarrow> db_op e k v = Inl (StorageError d)"
  by (simp add: db_op_def)

lemma matches_active:
  "matches_job (active_jobs_query uid) = (\<lambda>j. j_userId j = uid \<and> status j = ''active'')"
  by (rule ext) (simp add: matches_job_def active_jobs_query_def any_job_def field_is_def due_gte_def due_lte_def)

lemma matches_due:
  "matches_job (due_this_week_query e uid) =
     (\<lambda>j. j_userId j = uid \<and> status j = ''active''
      \<and> (case dueDate j of None \<Rightarrow> False
          | Some t \<Rightarrow> clock e 0 \<le> t \<and> t \<le> clock e (Suc 0) + 604800000))"
  by (rule ext) (auto simp: matches_job_def due_this_week_query_def any_job_def field_is_def due_gte_def
      due_lte_def split: option.splits)

lemma round_trips_ok_4:
  "round_trips_ok e 4 = (fault e 0 = None \<and> fault e 1 = None \<and> fault e 2 = None \<and> fault e 3 = None)"
  by (auto simp: round_trips_ok_def numeral_eq_Suc)

lemma round_trips_ok_iff: "round_trips_ok e n = (\<forall>k < n. fault e k = None)"
  by (auto simp: round_trips_ok_def list_all_iff)


lemma matches_owner:
  "matches_job (any_job\<lparr>q_userId := Some uid\<rparr>) = (\<lambda>j. j_userId j = uid)"
  by (rule ext) (simp add: matches_job_def any_job_def field_is_def due_gte_def due_lte_def)

lemma mset_owned_jobs_sorted:
  "mset (owned_jobs_sorted uid w) = mset (filter (\<lambda>j. j_userId j = uid) (jobs w))"
  by (simp add: owned_jobs_sorted_def sort_createdAt_desc_def find_jobs_def matches_owner)

lemma set_owned_jobs_sorted:
  "set (owned_jobs_sorted uid w) = {j \<in> set (jobs w). j_userId j = uid}"
  by (simp add: owned_jobs_sorted_def sort_createdAt_desc_def find_jobs_def matches_owner)

lemma sorted_owned_jobs_sorted:
  "sorted_wrt (\<lambda>a b. j_createdAt b \<le> j_createdAt a) (owned_jobs_sorted uid w)"
proof -
  have "sorted (map (\<lambda>j. - j_createdAt j) (owned_jobs_sorted uid w))"
    by (simp add: owned_jobs_sorted_def sort_createdAt_desc_def)
  then show ?thesis
    by (simp add: sorted_map)
qed

lemma find_Some_set: "find P xs = Some x \<Longrightarrow> x \<in> set xs \<and> P x"
  by (induction xs) (auto split: if_splits)

lemma format_job_listed:
  "format_job (populate w j) = Inr v \<Longrightarrow> listed w j v"
  by (auto simp: format_job_def populate_def listed_def render_due_def findById_customer_def
      findById_pipeline_def dest!: find_Some_set split: option.splits)

lemma map_err_listed:
  "map_err format_job (map (populate w) js) = Inr vs \<Longrightarrow> list_all2 (listed w) js vs"
proof (induction js arbitrary: vs)
  case Nil
  then show ?case by simp
next
  case (Cons j js)
  then show ?case
    by (auto split: sum.splits dest: format_job_listed)
qed

lemma get_jobs_cases:
  assumes "session w = Some uid"
  shows "get_jobs e w = (w, (500, PError ''Failed to fetch jobs''))
     \<or> (\<exists>vs. get_jobs e w = (w, (200, PJobs vs))
             \<and> list_all2 (listed w) (owned_jobs_sorted uid w) vs)"
proof (cases "ebind (db_op e 0 (map (populate w) (owned_jobs_sorted uid w))) (map_err format_job)")
  case (Inl x)
  with assms show ?thesis
    by (simp add: get_jobs_def requireAuth_def)
next
  case (Inr vs)
  then have "map_err format_job (map (populate w) (owned_jobs_sorted uid w)) = Inr vs"
    by (auto simp: db_op_def ebind_def split: option.splits sum.splits)
  then have "list_all2 (listed w) (owned_jobs_sorted uid w) vs"
    by (rule map_err_listed)
  with Inr assms show ?thesis
    by (simp add: get_jobs_def requireAuth_def)
qed

lemma list_all2_right_ex:
  "list_all2 P xs ys \<Longrightarrow> y \<in> set ys \<Longrightarrow> \<exists>x \<in> set xs. P x y"
  by (induction rule: list_all2_induct) auto

lemmas date_defs = iso_date_def iso_year_def year_of_days_def month_of_days_def date_of_days_def
  day_of_era_def year_of_era_def day_of_year_def month_index_def year_str_def pad2_def pad4_def
  pad6_def digit_def

lemma is_digit_digit: "is_digit (digit n)"
  unfolding digit_def is_digit_def by (rule nth_mem) simp

lemma sign_not_digit: "\<not> is_digit CHR ''+''" "\<not> is_digit CHR ''-''"
  by (simp_all add: is_digit_def)

lemma is_ymd_iso_date: "is_ymd (iso_date t) = (0 \<le> iso_year t \<and> iso_year t \<le> 9999)"
  by (auto simp: is_ymd_def iso_date_def year_str_def pad2_def pad4_def pad6_def is_digit_digit
      sign_not_digit)

lemma listed_due_rendered: "listed w j v \<Longrightarrow> due_rendered j v"
  by (auto simp: listed_def due_rendered_def is_ymd_iso_date split: option.splits)

lemma list_all2_weaken:
  "list_all2 P xs ys \<Longrightarrow> (\<And>x y. P x y \<Longrightarrow> Q x y) \<Longrightarrow> list_all2 Q xs ys"
  by (induction rule: list_all2_induct) auto

lemma get_jobs_w_two:
  "get_jobs (env_at 0) (w_two\<lparr>session := Some 1\<rparr>) =
     (w_two\<lparr>session := Some 1\<rparr>, (200, PJobs
        [\<lparr>v_id = 12, v_title = ''c'', v_customer = ''ABC Corp'', v_pipeline = ''Web Development'',
          v_currentStep = ''s'', v_status = ''paused'', v_dueDate = None, v_progress = 0\<rparr>,
         \<lparr>v_id = 10, v_title = ''a'', v_customer = ''ABC Corp'', v_pipeline = ''Web Development'',
          v_currentStep = ''s'', v_status = ''active'', v_dueDate = Some ''2025-07-01'',
          v_progress = 60\<rparr>]))"
  by (simp add: get_jobs_def requireAuth_def env_at_def db_op_def owned_jobs_sorted_def
      sort_createdAt_desc_def find_jobs_def matches_owner w_two_def empty_world_def
      populate_def findById_customer_def findById_pipeline_def format_job_def
      render_due_def date_defs)

lemma land_inv:
  "(\<And>s v v'. s \<in> set ss \<Longrightarrow> P v \<Longrightarrow> s v = Inr v' \<Longrightarrow> P v') \<Longrightarrow> P w \<Longrightarrow> P (land ss w)"
proof (induction ss arbitrary: w)
  case Nil
  then show ?case by (simp add: land_def)
next
  case (Cons s ss)
  have "P (settled s w)"
    using Cons.prems(1) [of s w] Cons.prems(2)
    by (cases "s w") (simp_all add: settled_def)
  moreover have "P v'" if "t \<in> set ss" "P v" "t v = Inr v'" for t v v'
    using Cons.prems(1) [of t v v'] that by simp
  ultimately have "P (land ss (settled s w))"
    using Cons.IH [of "settled s w"] by blast
  then show ?case
    by (simp add: land_def)
qed

lemma promise_all_saves_inv:
  assumes "\<And>s v v'. s \<in> snd ` set ss \<Longrightarrow> P v \<Longrightarrow> s v = Inr v' \<Longrightarrow> P v'" and "P w"
  shows "P (fst (promise_all_saves e ss w))"
proof (cases "first_rejection ss w")
  case None
  then show ?thesis
    using land_inv [of "map snd ss" P w] assms by (simp add: promise_all_saves_def)
next
  case (Some x)
  then show ?thesis
    using land_inv [of "map snd (filter (\<lambda>ks. \<not> in_flight e (fst ks)) ss)" P w] assms
    by (auto simp: promise_all_saves_def)
qed

lemma promise_all_saves_late:
  "set (snd (snd (promise_all_saves e ss w))) \<subseteq> snd ` set ss"
  by (cases "first_rejection ss w") (auto simp: promise_all_saves_def)

lemma promise_all_saves_fulfilled:
  "snd (promise_all_saves e ss w) = (None, late) \<Longrightarrow> late = []"
  by (cases "first_rejection ss w") (auto simp: promise_all_saves_def)

lemma sample_owner:
  "np_userId (sample_pipeline e i uid n dsc st) = Some uid"
  "nc_userId (sample_customer e i uid n em ph) = Some uid"
  "nj_userId (sample_job e i uid t c p cs due pr) = Some uid"
  by (simp_all add: sample_pipeline_def sample_customer_def sample_job_def)

lemma createSampleData_inv:
  assumes nid: "\<And>v n. P v \<Longrightarrow> P (v\<lparr>nextId := n\<rparr>)"
    and lg: "\<And>v m. P v \<Longrightarrow> P (v\<lparr>trace := trace v @ [ConsoleLog m]\<rparr>)"
    and er: "\<And>v m. P v \<Longrightarrow> P (v\<lparr>trace := trace v @ [ConsoleError m]\<rparr>)"
    and sp: "\<And>i d v v'. np_userId d = Some uid \<Longrightarrow> P v
               \<Longrightarrow> save_pipeline e i d v = Inr v' \<Longrightarrow> P v'"
    and sc: "\<And>i d v v'. nc_userId d = Some uid \<Longrightarrow> P v
               \<Longrightarrow> save_customer e i d v = Inr v' \<Longrightarrow> P v'"
    and sj: "\<And>i d v v'. nj_userId d = Some uid \<Longrightarrow> P v
               \<Longrightarrow> save_job e i d v = Inr v' \<Longrightarrow> P v'"
    and w: "P w"
  shows "P (fst (createSampleData e k uid w))"
proof -
  have ps: "P v'"
    if "P v" "promise_all_saves e
          [(i, save_pipeline e i (sample_pipeline e a uid n dsc st)),
           (i', save_pipeline e i' (sample_pipeline e a' uid n' dsc' st'))] v = (v', r)"
    for i a n dsc st i' a' n' dsc' st' v v' r
  proof -
    have "P (fst (promise_all_saves e
          [(i, save_pipeline e i (sample_pipeline e a uid n dsc st)),
           (i', save_pipeline e i' (sample_pipeline e a' uid n' dsc' st'))] v))"
    proof (rule promise_all_saves_inv [where P = P])
      fix s x x'
      assume "s \<in> snd ` set
          [(i, save_pipeline e i (sample_pipeline e a uid n dsc st)),
           (i', save_pipeline e i' (sample_pipeline e a' uid n' dsc' st'))]" "P x" "s x = Inr x'"
      then show "P x'"
        using sp [OF sample_owner(1)] by auto
    qed (rule that(1))
    with that(2) show ?thesis by simp
  qed
  have cs: "P v'"
    if "P v" "promise_all_saves e
          [(i, save_customer e i (sample_customer e a uid n em ph)),
           (i', save_customer e i' (sample_customer e a' uid n' em' ph')),
           (i'', save_customer e i'' (sample_customer e a'' uid n'' em'' ph''))] v = (v', r)"
    for i a n em ph i' a' n' em' ph' i'' a'' n'' em'' ph'' v v' r
  proof -
    have "P (fst (promise_all_saves e
          [(i, save_customer e i (sample_customer e a uid n em ph)),
           (i', save_customer e i' (sample_customer e a' uid n' em' ph')),
           (i'', save_customer e i'' (sample_customer e a'' uid n'' em'' ph''))] v))"
    proof (rule promise_all_saves_inv [where P = P])
      fix s x x'
      assume "s \<in> snd ` set
          [(i, save_customer e i (sample_customer e a uid n em ph)),
           (i', save_customer e i' (sample_customer e a' uid n' em' ph')),
           (i'', save_customer e i'' (sample_customer e a'' uid n'' em'' ph''))]" "P x" "s x = Inr x'"
      then show "P x'"
        using sc [OF sample_owner(2)] by auto
    qed (rule that(1))
    with that(2) show ?thesis by simp
  qed
  have js: "P v'"
    if "P v" "promise_all_saves e
          [(i, save_job e i (sample_job e a uid t c p st due pr)),
           (i', save_job e i' (sample_job e a' uid t' c' p' st' due' pr')),
           (i'', save_job e i'' (sample_job e a'' uid t'' c'' p'' st'' due'' pr''))] v = (v', r)"
    for i a t c p st due pr i' a' t' c' p' st' due' pr' i'' a'' t'' c'' p'' st'' due'' pr'' v v' r
  proof -
    have "P (fst (promise_all_saves e
          [(i, save_job e i (sample_job e a uid t c p st due pr)),
           (i', save_job e i' (sample_job e a' uid t' c' p' st' due' pr')),
           (i'', save_job e i'' (sample_job e a'' uid t'' c'' p'' st'' due'' pr''))] v))"
    proof (rule promise_all_saves_inv [where P = P])
      fix s x x'
      assume "s \<in> snd ` set
          [(i, save_job e i (sample_job e a uid t c p st due pr)),
           (i', save_job e i' (sample_job e a' uid t' c' p' st' due' pr')),
           (i'', save_job e i'' (sample_job e a'' uid t'' c'' p'' st'' due'' pr''))]" "P x" "s x = Inr x'"
      then show "P x'"
        using sj [OF sample_owner(3)] by auto
    qed (rule that(1))
    with that(2) show ?thesis by simp
  qed
  show ?thesis
    unfolding createSampleData_def Let_def caught_def
    apply (simp split: prod.splits option.splits)
    apply (intro allI impI conjI)
    apply (metis ps cs js nid w lg er)+
    done
qed


lemma promise_all_saves_late_mem:
  "promise_all_saves e ss w = (v, r, late) \<Longrightarrow> s \<in> set late \<Longrightarrow> s \<in> snd ` set ss"
  using promise_all_saves_late [of e ss w] by auto

lemma promise_all_saves_fulfilled_eq:
  "promise_all_saves e ss w = (v, None, late) \<Longrightarrow> late = []"
  using promise_all_saves_fulfilled [of e ss w late] by simp

lemma createSampleData_late:
  "s \<in> set (snd (createSampleData e k uid w)) \<Longrightarrow>
     (\<exists>i d. s = save_pipeline e i d \<and> np_userId d = Some uid)
     \<or> (\<exists>i d. s = save_customer e i d \<and> nc_userId d = Some uid)
     \<or> (\<exists>i d. s = save_job e i d \<and> nj_userId d = Some uid)"
proof -
  define Q where "Q = (\<lambda>s. (\<exists>i d. s = save_pipeline e i d \<and> np_userId d = Some uid)
     \<or> (\<exists>i d. s = save_customer e i d \<and> nc_userId d = Some uid)
     \<or> (\<exists>i d. s = save_job e i d \<and> nj_userId d = Some uid))"
  have q: "Q (save_pipeline e i (sample_pipeline e a uid n dsc st))"
    "Q (save_customer e i (sample_customer e a uid n em ph))"
    "Q (save_job e i (sample_job e a uid t c p cs due pr))"
    for i a n dsc st em ph t c p cs due pr
  proof -
    show "Q (save_pipeline e i (sample_pipeline e a uid n dsc st))"
      unfolding Q_def
      by (rule disjI1, rule exI, rule exI, rule conjI, rule refl, rule sample_owner)
    show "Q (save_customer e i (sample_customer e a uid n em ph))"
      unfolding Q_def
      by (rule disjI2, rule disjI1, rule exI, rule exI, rule conjI, rule refl,
          rule sample_owner)
    show "Q (save_job e i (sample_job e a uid t c p cs due pr))"
      unfolding Q_def
      by (rule disjI2, rule disjI2, rule exI, rule exI, rule conjI, rule refl,
          rule sample_owner)
  qed
  have m: "Q t" if "promise_all_saves e ss v = (v', r, late)" "t \<in> set late"
    "\<forall>t \<in> snd ` set ss. Q t" for ss v v' r late t
    using promise_all_saves_late_mem [OF that(1,2)] that(3) by blast
  have "t \<in> set (snd (createSampleData e k uid w)) \<Longrightarrow> Q t" for t
    unfolding createSampleData_def Let_def
    apply (clarsimp split: prod.splits option.splits)
    apply (erule (1) m, simp add: q)+
    done
  then show "s \<in> set (snd (createSampleData e k uid w)) \<Longrightarrow>
     (\<exists>i d. s = save_pipeline e i d \<and> np_userId d = Some uid)
     \<or> (\<exists>i d. s = save_customer e i d \<and> nc_userId d = Some uid)
     \<or> (\<exists>i d. s = save_job e i d \<and> nj_userId d = Some uid)"
    by (simp add: Q_def)
qed


lemma createSampleData_late_inv:
  assumes "\<And>i d v v'. np_userId d = Some uid \<Longrightarrow> P v
             \<Longrightarrow> save_pipeline e i d v = Inr v' \<Longrightarrow> P v'"
    and "\<And>i d v v'. nc_userId d = Some uid \<Longrightarrow> P v
             \<Longrightarrow> save_customer e i d v = Inr v' \<Longrightarrow> P v'"
    and "\<And>i d v v'. nj_userId d = Some uid \<Longrightarrow> P v
             \<Longrightarrow> save_job e i d v = Inr v' \<Longrightarrow> P v'"
    and "s \<in> set (snd (createSampleData e k uid w))" and "P v" and "s v = Inr v'"
  shows "P v'"
  using createSampleData_late [OF assms(4)] assms(1,2,3,5,6) by blast

lemma createSampleData_ok:
  assumes "fault e k = None" "fault e (k + 1) = None" "fault e (k + 2) = None"
    "fault e (k + 3) = None" "fault e (k + 4) = None" "fault e (k + 5) = None"
    "fault e (k + 6) = None" "fault e (k + 7) = None"
  shows "createSampleData e k uid w =
     (w\<lparr>pipelines := pipelines w @ seeded_pipelines e uid (nextId w),
       customers := customers w @ seeded_customers e uid (nextId w),
       jobs := jobs w @ seeded_jobs e uid (nextId w),
       nextId := nextId w + 8,
       trace := trace w @ seeded_events (nextId w)\<rparr>, [])"
  using assms
  by (simp add: createSampleData_def Let_def promise_all_saves_def land_def settled_def
      sample_pipeline_def sample_customer_def
      sample_job_def save_pipeline_def save_customer_def save_job_def validate_pipeline_def
      validate_customer_def validate_job_def required_str_def date_value_def time_clip_def
      db_op_def seeded_pipelines_def seeded_customers_def seeded_jobs_def seeded_events_def
      add.commute)

lemma round_trips_ok_less: "round_trips_ok e n \<Longrightarrow> k < n \<Longrightarrow> fault e k = None"
  by (simp add: round_trips_ok_iff)

lemma find_append_None: "find P xs = None \<Longrightarrow> find P (xs @ ys) = find P ys"
  by (induction xs) (auto split: if_splits)

lemma first_login_eq:
  assumes "findOne_username ''desivar'' w = None"
    and "\<forall>x \<in> set (users w). githubId x \<noteq> Some ''desivar-github-id''"
    and "round_trips_ok e 10"
  shows "post_auth_github e (Body (Some ''desivar'')) w =
     (first_login_world e w, (200, PLogin (view_user (desivar e (nextId w)))))"
proof -
  have f: "fault e 0 = None" "fault e (Suc 0) = None" "fault e 2 = None" "fault e (2 + 1) = None"
    "fault e (2 + 2) = None" "fault e (2 + 3) = None" "fault e (2 + 4) = None"
    "fault e (2 + 5) = None" "fault e (2 + 6) = None" "fault e (2 + 7) = None"
    using assms(3) by (simp_all add: round_trips_ok_iff)
  have v: "validate_user (new_User e w) = Inr (desivar e (nextId w))"
    by (simp add: validate_user_def new_User_def required_str_def desivar_def)
  have s: "save_user e (Suc 0) (new_User e w) (w\<lparr>nextId := Suc (nextId w)\<rparr>) =
      Inr (w\<lparr>nextId := Suc (nextId w), users := users w @ [desivar e (nextId w)],
             trace := trace w @ [Inserted ''User'' (nextId w)]\<rparr>)"
    using assms(2) f(2) by (simp add: save_user_def v db_op_ok) (simp add: desivar_def)
  show ?thesis
    using assms(1) f(1)
    by (simp add: post_auth_github_def db_op_ok Let_def v s login_ok_def seeded_login_def land_def
        createSampleData_ok [OF f(3-10)] first_login_world_def)
       (simp add: desivar_def)
qed



lemma save_job_jobs_ok: "jobs_ok v \<Longrightarrow> save_job e i d v = Inr v' \<Longrightarrow> jobs_ok v'"
  by (auto simp: save_job_def validate_job_def ebind_def db_op_def jobs_ok_def in_range_def
      split: if_splits option.splits)

lemma save_pipeline_jobs: "save_pipeline e i d v = Inr v' \<Longrightarrow> jobs v' = jobs v"
  by (auto simp: save_pipeline_def ebind_def db_op_def split: sum.splits option.splits)

lemma save_customer_jobs: "save_customer e i d v = Inr v' \<Longrightarrow> jobs v' = jobs v"
  by (auto simp: save_customer_def ebind_def db_op_def split: sum.splits option.splits)

lemma save_user_jobs: "save_user e i d v = Inr v' \<Longrightarrow> jobs v' = jobs v"
  by (auto simp: save_user_def ebind_def db_op_def split: sum.splits option.splits if_splits)

lemma createSampleData_jobs_ok: "jobs_ok w \<Longrightarrow> jobs_ok (fst (createSampleData e k uid w))"
proof (rule createSampleData_inv [where P = jobs_ok])
  show "jobs_ok v'" if "jobs_ok v" "save_pipeline e i d v = Inr v'" for i d v v'
    using that save_pipeline_jobs [of e i d v v'] by (simp add: jobs_ok_def)
  show "jobs_ok v'" if "jobs_ok v" "save_customer e i d v = Inr v'" for i d v v'
    using that save_customer_jobs [of e i d v v'] by (simp add: jobs_ok_def)
  show "jobs_ok v'" if "jobs_ok v" "save_job e i d v = Inr v'" for i d v v'
    using that by (rule save_job_jobs_ok)
qed (simp_all add: jobs_ok_def)

lemma late_jobs_ok:
  assumes "s \<in> set (snd (createSampleData e k uid w))" and "jobs_ok v" and "s v = Inr v'"
  shows "jobs_ok v'"
proof (rule createSampleData_late_inv [where P = jobs_ok, OF _ _ _ assms])
  show "jobs_ok v'" if "jobs_ok v" "save_pipeline e i d v = Inr v'" for i d v v'
    using that save_pipeline_jobs [of e i d v v'] by (simp add: jobs_ok_def)
  show "jobs_ok v'" if "jobs_ok v" "save_customer e i d v = Inr v'" for i d v v'
    using that save_customer_jobs [of e i d v v'] by (simp add: jobs_ok_def)
  show "jobs_ok v'" if "jobs_ok v" "save_job e i d v = Inr v'" for i d v v'
    using that by (rule save_job_jobs_ok)
qed

lemma seeded_login_jobs_ok:
  assumes "jobs_ok v"
  shows "jobs_ok (fst (seeded_login u (createSampleData e k uid v)))"
proof -
  have "jobs_ok (fst (createSampleData e k uid v))"
    using assms by (rule createSampleData_jobs_ok)
  then have "jobs_ok (fst (login_ok u (fst (createSampleData e k uid v))))"
    by (simp add: login_ok_def jobs_ok_def)
  then have "jobs_ok (land (snd (createSampleData e k uid v))
      (fst (login_ok u (fst (createSampleData e k uid v)))))"
    by (rule land_inv [where P = jobs_ok, rotated]) (rule late_jobs_ok)
  then show ?thesis
    by (simp add: seeded_login_def)
qed

lemma post_auth_github_jobs_ok:
  "jobs_ok w \<Longrightarrow> jobs_ok (fst (post_auth_github e n w))"
proof -
  assume ok: "jobs_ok w"
  have seed: "jobs_ok (fst (seeded_login u (createSampleData e 2 (u_id u) v)))"
    if "save_user e 1 d (w\<lparr>nextId := Suc (nextId w)\<rparr>) = Inr v" for u d v
  proof -
    from that have "jobs v = jobs w"
      by (simp add: save_user_jobs [of e 1 d _ v])
    with ok have "jobs_ok v"
      by (simp add: jobs_ok_def)
    then show ?thesis
      by (rule seeded_login_jobs_ok)
  qed
  show ?thesis
    using ok seed
    by (auto simp: post_auth_github_def Let_def login_ok_def login_failed_def jobs_ok_def
        ebind_def split: sum.splits option.splits prod.splits login_body.splits
        simp del: One_nat_def)
qed

lemma requireAuth_jobs_ok:
  "(\<And>uid. jobs_ok (fst (h uid w))) \<Longrightarrow> jobs_ok w \<Longrightarrow> jobs_ok (fst (requireAuth h w))"
  by (simp add: requireAuth_def split: option.splits)

lemma post_jobs_jobs_ok: "jobs_ok w \<Longrightarrow> jobs_ok (fst (post_jobs e b w))"
  unfolding post_jobs_def Let_def
proof (rule requireAuth_jobs_ok)
  fix uid
  assume ok: "jobs_ok w"
  then have ok1: "jobs_ok (w\<lparr>nextId := Suc (nextId w)\<rparr>)"
    by (simp add: jobs_ok_def)
  show "jobs_ok (fst (case save_job e 0 (new_Job e b uid w) (w\<lparr>nextId := Suc (nextId w)\<rparr>) of
        Inl x \<Rightarrow> (w\<lparr>nextId := Suc (nextId w)\<rparr>, 500, PError ''Failed to create job'')
      | Inr w2 \<Rightarrow> (w2, 201, PJobId (nj_id (new_Job e b uid w)))))"
    using ok1 save_job_jobs_ok [OF ok1]
    by (auto split: sum.splits)
qed

lemma route_handler_jobs_ok: "jobs_ok w \<Longrightarrow> jobs_ok (fst (route_handler e r w))"
proof (cases r)
  case (AuthGithub n)
  assume "jobs_ok w"
  with AuthGithub show ?thesis by (simp add: route_handler_def post_auth_github_jobs_ok)
next
  case (PostJobs b)
  assume "jobs_ok w"
  with PostJobs show ?thesis
    by (cases b)
       (simp_all add: route_handler_def post_jobs_jobs_ok no_body_def requireAuth_def
         split: option.splits)
next
  case (PostCustomers b)
  assume "jobs_ok w"
  with PostCustomers show ?thesis
    by (cases b)
       (auto simp: route_handler_def no_body_def post_customers_def requireAuth_def Let_def
         jobs_ok_def split: option.splits sum.splits dest: save_customer_jobs)
next
  case (PostPipelines b)
  assume "jobs_ok w"
  with PostPipelines show ?thesis
    by (cases b)
       (auto simp: route_handler_def no_body_def post_pipelines_def requireAuth_def Let_def
         jobs_ok_def split: option.splits sum.splits dest: save_pipeline_jobs)
qed (auto simp: route_handler_def post_auth_logout_def get_user_def get_dashboard_stats_def
    get_jobs_def get_customers_def get_pipelines_def requireAuth_def jobs_ok_def
    split: option.splits sum.splits)

lemma handle_jobs_ok: "jobs_ok w \<Longrightarrow> jobs_ok (fst (handle e r w))"
proof (cases "middleware_fault e")
  case None
  assume "jobs_ok w"
  then have "jobs_ok (fst (route_handler e r w))"
    by (rule route_handler_jobs_ok)
  with None show ?thesis
    by (simp add: handle_def)
next
  case (Some d)
  assume "jobs_ok w"
  with Some show ?thesis
    by (simp add: handle_def error_middleware_def jobs_ok_def)
qed

lemma run_jobs_ok: "jobs_ok w \<Longrightarrow> jobs_ok (run rs w)"
proof (induction rs arbitrary: w)
  case Nil
  then show ?case by simp
next
  case (Cons x rs)
  obtain s e r where x: "x = (s, e, r)"
    by (cases x) auto
  from Cons.prems have "jobs_ok (w\<lparr>session := s\<rparr>)"
    by (simp add: jobs_ok_def)
  then have "jobs_ok (fst (handle e r (w\<lparr>session := s\<rparr>)))"
    by (rule handle_jobs_ok)
  then show ?case
    using Cons.IH x by simp
qed

lemma listed_progress: "list_all2 (listed w) js vs \<Longrightarrow> map v_progress vs = map progress js"
  by (induction rule: list_all2_induct) (auto simp: listed_def)

lemma over_run_world:
  "run over_run empty_world =
     (first_login_world (env_at 0) empty_world)\<lparr>
       jobs := seeded_jobs (env_at 0) 0 1 @
        [\<lparr>j_id = 9, title = ''Overdone'', customerId = 3, pipelineId = 1,
          currentStep = ''Design'', status = ''active'', dueDate = None, progress = 0,
          j_userId = 0, j_createdAt = 0\<rparr>],
       nextId := 10,
       trace := trace (first_login_world (env_at 0) empty_world) @ [Inserted ''Job'' 9]\<rparr>"
proof -
  have a: "findOne_username ''desivar'' (empty_world\<lparr>session := None\<rparr>) = None"
    by (simp add: findOne_username_def empty_world_def)
  have b: "\<forall>x \<in> set (users (empty_world\<lparr>session := None\<rparr>)). githubId x \<noteq> Some ''desivar-github-id''"
    by (simp add: empty_world_def)
  have c: "round_trips_ok (env_at 0) 10"
    by (simp add: round_trips_ok_iff env_at_def)
  have m: "middleware_fault (env_at 0) = None"
    by (simp add: env_at_def)
  show ?thesis
    by (simp add: over_run_def handle_def route_handler_def m first_login_eq [OF a b c]
        first_login_world_def post_jobs_def
        requireAuth_def new_Job_def save_job_def validate_job_def required_str_def
        date_value_def db_op_def over_body_def Let_def)
       (simp add: empty_world_def env_at_def)
qed

lemma over_run_listing:
  "get_jobs (env_at 0) ((run over_run empty_world)\<lparr>session := Some 0\<rparr>) =
     ((run over_run empty_world)\<lparr>session := Some 0\<rparr>, (200, PJobs over_listing))"
  unfolding over_run_world
  by (simp add: get_jobs_def requireAuth_def env_at_def db_op_def owned_jobs_sorted_def
      sort_createdAt_desc_def find_jobs_def matches_owner first_login_world_def
      empty_world_def seeded_jobs_def seeded_customers_def seeded_pipelines_def
      populate_def findById_customer_def findById_pipeline_def format_job_def
      render_due_def date_defs over_listing_def)



lemma validate_new_User: "validate_user (new_User e w) = Inr (desivar e (nextId w))"
  by (simp add: validate_user_def new_User_def required_str_def desivar_def)

lemma save_new_User:
  assumes "\<forall>x \<in> set (users w). githubId x \<noteq> Some ''desivar-github-id''"
    and "fault e (Suc 0) = None"
  shows "save_user e (Suc 0) (new_User e w) (w\<lparr>nextId := Suc (nextId w)\<rparr>) = Inr (user_saved e w)"
  using assms
  by (simp add: save_user_def validate_new_User db_op_ok user_saved_def) (simp add: desivar_def)

lemma no_session_event_append:
  "no_session_event (xs @ ys) = (no_session_event xs \<and> no_session_event ys)"
  by (simp add: no_session_event_def)

lemma no_session_event_simps [simp]:
  "no_session_event []"
  "no_session_event (Inserted c i # evs) = no_session_event evs"
  "no_session_event (ConsoleLog m # evs) = no_session_event evs"
  "no_session_event (ConsoleError m # evs) = no_session_event evs"
  "\<not> no_session_event (SessionSet u # evs)"
  by (simp_all add: no_session_event_def)

lemma createSampleData_session: "session (fst (createSampleData e k uid w)) = session w"
  by (rule createSampleData_inv [where P = "\<lambda>v. session v = session w"])
     (auto simp: save_pipeline_def save_customer_def save_job_def ebind_def db_op_def
       split: sum.splits option.splits)

lemma createSampleData_trace:
  "\<exists>evs. trace (fst (createSampleData e k uid w)) = trace w @ evs \<and> no_session_event evs"
proof (rule createSampleData_inv
    [where P = "\<lambda>v. \<exists>evs. trace v = trace w @ evs \<and> no_session_event evs"])
  show "\<exists>evs. trace v' = trace w @ evs \<and> no_session_event evs"
    if "\<exists>evs. trace v = trace w @ evs \<and> no_session_event evs"
      and "save_pipeline e i d v = Inr v'" for i d v v'
    using that
    by (auto simp: save_pipeline_def ebind_def db_op_def no_session_event_append
        split: sum.splits option.splits)
  show "\<exists>evs. trace v' = trace w @ evs \<and> no_session_event evs"
    if "\<exists>evs. trace v = trace w @ evs \<and> no_session_event evs"
      and "save_customer e i d v = Inr v'" for i d v v'
    using that
    by (auto simp: save_customer_def ebind_def db_op_def no_session_event_append
        split: sum.splits option.splits)
  show "\<exists>evs. trace v' = trace w @ evs \<and> no_session_event evs"
    if "\<exists>evs. trace v = trace w @ evs \<and> no_session_event evs"
      and "save_job e i d v = Inr v'" for i d v v'
    using that
    by (auto simp: save_job_def ebind_def db_op_def no_session_event_append
        split: sum.splits option.splits)
qed (auto simp: no_session_event_append)

lemma only_inserts_append: "only_inserts (xs @ ys) = (only_inserts xs \<and> only_inserts ys)"
  by (simp add: only_inserts_def)

lemma land_late_trace:
  "\<exists>evs. trace (land (snd (createSampleData e k uid w)) v) = trace v @ evs \<and> only_inserts evs
     \<and> session (land (snd (createSampleData e k uid w)) v) = session v"
proof (rule land_inv [where P = "\<lambda>x. \<exists>evs. trace x = trace v @ evs \<and> only_inserts evs
     \<and> session x = session v"])
  fix s x x'
  assume s: "s \<in> set (snd (createSampleData e k uid w))"
    and x: "\<exists>evs. trace x = trace v @ evs \<and> only_inserts evs \<and> session x = session v"
    and r: "s x = Inr x'"
  show "\<exists>evs. trace x' = trace v @ evs \<and> only_inserts evs \<and> session x' = session v"
  proof (rule createSampleData_late_inv [where P = "\<lambda>x. \<exists>evs. trace x = trace v @ evs
      \<and> only_inserts evs \<and> session x = session v", OF _ _ _ s x r])
    show "\<exists>evs. trace b = trace v @ evs \<and> only_inserts evs \<and> session b = session v"
      if "\<exists>evs. trace a = trace v @ evs \<and> only_inserts evs \<and> session a = session v"
        and "save_pipeline e i d a = Inr b" for i d a b
      using that
      by (auto simp: save_pipeline_def ebind_def db_op_def only_inserts_def
          split: sum.splits option.splits)
    show "\<exists>evs. trace b = trace v @ evs \<and> only_inserts evs \<and> session b = session v"
      if "\<exists>evs. trace a = trace v @ evs \<and> only_inserts evs \<and> session a = session v"
        and "save_customer e i d a = Inr b" for i d a b
      using that
      by (auto simp: save_customer_def ebind_def db_op_def only_inserts_def
          split: sum.splits option.splits)
    show "\<exists>evs. trace b = trace v @ evs \<and> only_inserts evs \<and> session b = session v"
      if "\<exists>evs. trace a = trace v @ evs \<and> only_inserts evs \<and> session a = session v"
        and "save_job e i d a = Inr b" for i d a b
      using that
      by (auto simp: save_job_def ebind_def db_op_def only_inserts_def
          split: sum.splits option.splits)
  qed
qed (simp add: only_inserts_def)



lemma save_job_fault: "fault e k = Some d \<Longrightarrow> \<exists>x. save_job e k doc w = Inl x"
  by (cases "validate_job doc") (simp_all add: save_job_def db_op_fail)

lemma save_customer_fault: "fault e k = Some d \<Longrightarrow> \<exists>x. save_customer e k doc w = Inl x"
  by (cases "validate_customer doc") (simp_all add: save_customer_def db_op_fail)

lemma save_pipeline_fault: "fault e k = Some d \<Longrightarrow> \<exists>x. save_pipeline e k doc w = Inl x"
  by (cases "validate_pipeline doc") (simp_all add: save_pipeline_def db_op_fail)

lemma customers_counts_fault:
  "k0 \<le> k \<Longrightarrow> k < k0 + 2 * length cs \<Longrightarrow> fault e k = Some d
     \<Longrightarrow> isl (customers_with_job_counts e w k0 cs)"
proof (induction cs arbitrary: k0)
  case Nil
  then show ?case by simp
next
  case (Cons c cs)
  show ?case
  proof (cases "k = k0 \<or> k = k0 + 1")
    case True
    with Cons.prems(3) show ?thesis
      by (cases "fault e k0") (auto simp: db_op_def)
  next
    case False
    with Cons.prems have "k0 + 2 \<le> k" "k < (k0 + 2) + 2 * length cs"
      by auto
    then have "isl (customers_with_job_counts e w (k0 + 2) cs)"
      using Cons.prems(3) by (rule Cons.IH)
    then show ?thesis
      by (cases "fault e k0"; cases "fault e (k0 + 1)")
         (auto simp: db_op_def ebind_def split: sum.splits)
  qed
qed

lemma pipelines_counts_fault:
  "k0 \<le> k \<Longrightarrow> k < k0 + length ps \<Longrightarrow> fault e k = Some d
     \<Longrightarrow> isl (pipelines_with_job_counts e w k0 ps)"
proof (induction ps arbitrary: k0)
  case Nil
  then show ?case by simp
next
  case (Cons p ps)
  show ?case
  proof (cases "k = k0")
    case True
    with Cons.prems(3) show ?thesis
      by (simp add: db_op_def)
  next
    case False
    with Cons.prems have "k0 + 1 \<le> k" "k < (k0 + 1) + length ps"
      by auto
    then have "isl (pipelines_with_job_counts e w (k0 + 1) ps)"
      using Cons.prems(3) by (rule Cons.IH)
    then show ?thesis
      by (cases "fault e k0") (auto simp: db_op_def ebind_def split: sum.splits)
  qed
qed

lemma get_customers_fault:
  assumes "session w = Some uid" and "k < 1 + 2 * length (find_customers uid w)"
    and "fault e k = Some d"
  shows "snd (get_customers e w) = (500, PError ''Failed to fetch customers'')"
proof (cases "fault e 0")
  case (Some d0)
  with assms(1) show ?thesis
    by (simp add: get_customers_def requireAuth_def db_op_def)
next
  case None
  with assms(3) have "1 \<le> k"
    by (cases k) auto
  from customers_counts_fault [OF this _ assms(3)] assms(2)
  have "isl (customers_with_job_counts e w 1 (find_customers uid w))"
    by simp
  with None assms(1) show ?thesis
    by (auto simp: get_customers_def requireAuth_def db_op_def isl_def)
qed

lemma get_pipelines_fault:
  assumes "session w = Some uid" and "k < 1 + length (find_pipelines uid w)"
    and "fault e k = Some d"
  shows "snd (get_pipelines e w) = (500, PError ''Failed to fetch pipelines'')"
proof (cases "fault e 0")
  case (Some d0)
  with assms(1) show ?thesis
    by (simp add: get_pipelines_def requireAuth_def db_op_def)
next
  case None
  with assms(3) have "1 \<le> k"
    by (cases k) auto
  from pipelines_counts_fault [OF this _ assms(3)] assms(2)
  have "isl (pipelines_with_job_counts e w 1 (find_pipelines uid w))"
    by simp
  with None assms(1) show ?thesis
    by (auto simp: get_pipelines_def requireAuth_def db_op_def isl_def)
qed

lemma get_dashboard_stats_fault:
  assumes "session w = Some uid" and "k < 4" and "fault e k = Some d"
  shows "snd (get_dashboard_stats e w) = (500, PError ''Failed to fetch stats'')"
proof -
  from assms(2) have "k = 0 \<or> k = 1 \<or> k = 2 \<or> k = 3"
    by auto
  with assms(1,3) show ?thesis
    by (auto simp: get_dashboard_stats_def requireAuth_def db_op_def split: option.splits)
qed


lemma route_any_fault:
  assumes "authenticated r" and "session w = Some uid"
    and k: "k < round_trips r uid w" and fk: "fault e k = Some d"
  shows "snd (route_handler e r w) = (500, PError (generic_message r))"
proof (cases r)
  case (AuthGithub n)
  with assms show ?thesis by (simp add: authenticated_def)
next
  case AuthLogout
  with assms show ?thesis by (simp add: authenticated_def)
next
  case GetUser
  with k fk have f: "fault e 0 = Some d"
    by (simp add: round_trips_def)
  with GetUser assms(2) show ?thesis
    by (simp add: route_handler_def get_user_def requireAuth_def generic_message_def db_op_fail)
next
  case GetDashboardStats
  with k have "k < 4"
    by (simp add: round_trips_def)
  from get_dashboard_stats_fault [OF assms(2) this fk] GetDashboardStats show ?thesis
    by (simp add: route_handler_def generic_message_def)
next
  case GetJobs
  with k fk have f: "fault e 0 = Some d"
    by (simp add: round_trips_def)
  with GetJobs assms(2) show ?thesis
    by (simp add: route_handler_def get_jobs_def requireAuth_def generic_message_def db_op_fail)
next
  case (PostJobs bo)
  with k fk have f: "fault e 0 = Some d"
    by (simp add: round_trips_def)
  show ?thesis
  proof (cases bo)
    case None
    with PostJobs assms(2) show ?thesis
      by (simp add: route_handler_def no_body_def requireAuth_def generic_message_def)
  next
    case (Some b)
    from save_job_fault [OF f] obtain x
      where "save_job e 0 (new_Job e b uid w) (w\<lparr>nextId := Suc (nextId w)\<rparr>) = Inl x"
      by blast
    with PostJobs Some assms(2) show ?thesis
      by (simp add: route_handler_def post_jobs_def requireAuth_def Let_def generic_message_def)
  qed
next
  case GetCustomers
  with k have "k < 1 + 2 * length (find_customers uid w)"
    by (simp add: round_trips_def)
  from get_customers_fault [OF assms(2) this fk] GetCustomers show ?thesis
    by (simp add: route_handler_def generic_message_def)
next
  case (PostCustomers bo)
  with k fk have f: "fault e 0 = Some d"
    by (simp add: round_trips_def)
  show ?thesis
  proof (cases bo)
    case None
    with PostCustomers assms(2) show ?thesis
      by (simp add: route_handler_def no_body_def requireAuth_def generic_message_def)
  next
    case (Some b)
    from save_customer_fault [OF f] obtain x
      where "save_customer e 0 \<lparr>nc_id = nextId w, nc_name = cb_name b, nc_email = cb_email b,
               nc_phone = cb_phone b, nc_userId = Some uid, nc_createdAt = clock e 0\<rparr>
             (w\<lparr>nextId := Suc (nextId w)\<rparr>) = Inl x"
      by blast
    with PostCustomers Some assms(2) show ?thesis
      by (simp add: route_handler_def post_customers_def requireAuth_def Let_def
          generic_message_def)
  qed
next
  case GetPipelines
  with k have "k < 1 + length (find_pipelines uid w)"
    by (simp add: round_trips_def)
  from get_pipelines_fault [OF assms(2) this fk] GetPipelines show ?thesis
    by (simp add: route_handler_def generic_message_def)
next
  case (PostPipelines bo)
  with k fk have f: "fault e 0 = Some d"
    by (simp add: round_trips_def)
  show ?thesis
  proof (cases bo)
    case None
    with PostPipelines assms(2) show ?thesis
      by (simp add: route_handler_def no_body_def requireAuth_def generic_message_def)
  next
    case (Some b)
    from save_pipeline_fault [OF f] obtain x
      where "save_pipeline e 0 \<lparr>np_id = nextId w, np_name = pb_name b,
               np_description = pb_description b, np_steps = pb_steps b,
               np_userId = Some uid, np_createdAt = clock e 0\<rparr>
             (w\<lparr>nextId := Suc (nextId w)\<rparr>) = Inl x"
      by blast
    with PostPipelines Some assms(2) show ?thesis
      by (simp add: route_handler_def post_pipelines_def requireAuth_def Let_def
          generic_message_def)
  qed
qed

lemma route_500_shape:
  assumes "authenticated r" and "session w = Some uid"
  shows "(fst (snd (route_handler e r w)) = 500 \<longrightarrow>
          snd (route_handler e r w) = (500, PError (generic_message r))
          \<and> trace (fst (route_handler e r w)) = trace w)
     \<and> fst (snd (route_handler e r w)) \<in> {200, 201, 500}"
proof (cases r)
  case (AuthGithub n)
  with assms show ?thesis by (simp add: authenticated_def)
next
  case AuthLogout
  with assms show ?thesis by (simp add: authenticated_def)
next
  case GetUser
  with assms(2) show ?thesis
    by (simp add: route_handler_def get_user_def requireAuth_def generic_message_def
        split: sum.split)
next
  case GetDashboardStats
  with assms(2) show ?thesis
    by (simp add: route_handler_def get_dashboard_stats_def requireAuth_def generic_message_def
        split: sum.split)
next
  case GetJobs
  with assms(2) show ?thesis
    by (simp add: route_handler_def get_jobs_def requireAuth_def generic_message_def
        split: sum.split)
next
  case (PostJobs bo)
  with assms(2) show ?thesis
    by (cases bo)
       (simp_all add: route_handler_def no_body_def post_jobs_def requireAuth_def Let_def
         generic_message_def split: sum.split)
next
  case GetCustomers
  with assms(2) show ?thesis
    by (simp add: route_handler_def get_customers_def requireAuth_def generic_message_def
        split: sum.split)
next
  case (PostCustomers bo)
  with assms(2) show ?thesis
    by (cases bo)
       (simp_all add: route_handler_def no_body_def post_customers_def requireAuth_def Let_def
         generic_message_def split: sum.split)
next
  case GetPipelines
  with assms(2) show ?thesis
    by (simp add: route_handler_def get_pipelines_def requireAuth_def generic_message_def
        split: sum.split)
next
  case (PostPipelines bo)
  with assms(2) show ?thesis
    by (cases bo)
       (simp_all add: route_handler_def no_body_def post_pipelines_def requireAuth_def Let_def
         generic_message_def split: sum.split)
qed




































text \<open>
  C2. With a valid session, GET /api/jobs answers with the store unchanged, and every
  entry of a listing stands for a job of the store whose owner is the session user.
  Where job identifiers are the keys of the collection, the listing holds the
  identifier of no job that another user owns, so of two users neither sees a job of
  the other.
\<close>

theorem get_jobs_only_own:
  assumes "session w = Some uid" and "get_jobs e w = (w', (st, PJobs vs))"
  shows "w' = w \<and> (\<forall>v \<in> set vs. \<exists>j \<in> set (jobs w). j_userId j = uid \<and> listed w j v)
     \<and> (distinct (map j_id (jobs w)) \<longrightarrow>
          (\<forall>j \<in> set (jobs w). j_userId j \<noteq> uid \<longrightarrow> j_id j \<notin> v_id ` set vs))"
proof -
  from get_jobs_cases [OF assms(1), of e] assms(2)
  have w: "w' = w" and l: "list_all2 (listed w) (owned_jobs_sorted uid w) vs"
    by auto
  have own: "\<exists>j \<in> set (jobs w). j_userId j = uid \<and> listed w j v" if "v \<in> set vs" for v
  proof -
    from that l obtain j where "j \<in> set (owned_jobs_sorted uid w)" and "listed w j v"
      by (blast dest: list_all2_right_ex)
    then show ?thesis
      by (auto simp: set_owned_jobs_sorted)
  qed
  have other: "j_id j \<notin> v_id ` set vs"
    if d: "distinct (map j_id (jobs w))" and j: "j \<in> set (jobs w)" "j_userId j \<noteq> uid" for j
  proof
    assume "j_id j \<in> v_id ` set vs"
    then obtain v where "v \<in> set vs" and "v_id v = j_id j"
      by auto
    with own [of v] obtain j' where j': "j' \<in> set (jobs w)" "j_userId j' = uid" "j_id j' = j_id j"
      unfolding listed_def by metis
    from d j(1) j'(1) j'(3) have "j' = j"
      by (simp add: distinct_map inj_on_def)
    with j' j show False by simp
  qed
  from w own other show ?thesis by blast
qed

theorem get_jobs_only_own_witness:
  "session (w_two\<lparr>session := Some 1\<rparr>) = Some 1
   \<and> distinct (map j_id (jobs (w_two\<lparr>session := Some 1\<rparr>)))
   \<and> fst (snd (get_jobs (env_at 0) (w_two\<lparr>session := Some 1\<rparr>))) = 200
   \<and> j_userId (jobs w_two ! 1) = 2 \<and> j_id (jobs w_two ! 1) = 11
   \<and> 11 \<notin> v_id ` set
        [\<lparr>v_id = 12, v_title = ''c'', v_customer = ''ABC Corp'', v_pipeline = ''Web Development'',
          v_currentStep = ''s'', v_status = ''paused'', v_dueDate = None, v_progress = 0\<rparr>,
         \<lparr>v_id = 10, v_title = ''a'', v_customer = ''ABC Corp'', v_pipeline = ''Web Development'',
          v_currentStep = ''s'', v_status = ''active'', v_dueDate = Some ''2025-07-01'',
          v_progress = 60\<rparr>]"
proof -
  have s: "session (w_two\<lparr>session := Some 1\<rparr>) = Some 1"
    by simp
  have d: "distinct (map j_id (jobs (w_two\<lparr>session := Some 1\<rparr>)))"
    by (simp add: w_two_def empty_world_def)
  have j: "jobs w_two ! 1 \<in> set (jobs (w_two\<lparr>session := Some 1\<rparr>))"
    "j_userId (jobs w_two ! 1) = 2" "j_id (jobs w_two ! 1) = 11"
    by (simp_all add: w_two_def empty_world_def)
  from get_jobs_only_own [OF s get_jobs_w_two] d j have "11 \<notin> v_id ` set
        [\<lparr>v_id = 12, v_title = ''c'', v_customer = ''ABC Corp'', v_pipeline = ''Web Development'',
          v_currentStep = ''s'', v_status = ''paused'', v_dueDate = None, v_progress = 0\<rparr>,
         \<lparr>v_id = 10, v_title = ''a'', v_customer = ''ABC Corp'', v_pipeline = ''Web Development'',
          v_currentStep = ''s'', v_status = ''active'', v_dueDate = Some ''2025-07-01'',
          v_progress = 60\<rparr>]"
    by (metis One_nat_def Suc_1 n_not_Suc_n)
  moreover have "fst (snd (get_jobs (env_at 0) (w_two\<lparr>session := Some 1\<rparr>))) = 200"
    unfolding get_jobs_w_two by simp
  ultimately show ?thesis
    using s d j by blast
qed

text \<open>
  C3. With a valid session and the four counts answered by the store, the statistics
  report as \<open>activeJobs\<close> the number of jobs of the session user with status
  \<open>active\<close>, and as \<open>jobsDueThisWeek\<close> the number of those among them whose due
  date lies between the reading of the clock and seven days after it, bounds included
  (the handler reads the clock once for each bound); so \<open>jobsDueThisWeek\<close> never
  exceeds \<open>activeJobs\<close>. When a count fails the answer is status 500.
\<close>

theorem dashboard_stats_counts:
  assumes "session w = Some uid"
  shows "get_dashboard_stats e w =
      (if round_trips_ok e 4
       then (w, (200, PStats
          (length (filter (\<lambda>j. j_userId j = uid \<and> status j = ''active'') (jobs w)))
          (length (filter (\<lambda>c. c_userId c = uid) (customers w)))
          (length (filter (\<lambda>p. p_userId p = uid) (pipelines w)))
          (length (filter (\<lambda>j. j_userId j = uid \<and> status j = ''active''
                  \<and> due_within (clock e 0) (clock e (Suc 0) + 7 * 86400000) j) (jobs w)))))
       else (w, (500, PError ''Failed to fetch stats'')))
    \<and> length (filter (\<lambda>j. j_userId j = uid \<and> status j = ''active''
                  \<and> due_within (clock e 0) (clock e (Suc 0) + 7 * 86400000) j) (jobs w))
      \<le> length (filter (\<lambda>j. j_userId j = uid \<and> status j = ''active'') (jobs w))"
proof -
  have le: "length (filter (\<lambda>j. j_userId j = uid \<and> status j = ''active''
                  \<and> due_within (clock e 0) (clock e (Suc 0) + 7 * 86400000) j) (jobs w))
      \<le> length (filter (\<lambda>j. j_userId j = uid \<and> status j = ''active'') (jobs w))"
    by (rule length_filter_mono) simp
  have "get_dashboard_stats e w = (w, (500, PError ''Failed to fetch stats''))"
    if "\<not> round_trips_ok e 4"
    using that assms
    by (auto simp: round_trips_ok_4 get_dashboard_stats_def requireAuth_def db_op_def
        split: option.splits)
  moreover have "get_dashboard_stats e w = (w, (200, PStats
          (length (filter (\<lambda>j. j_userId j = uid \<and> status j = ''active'') (jobs w)))
          (length (filter (\<lambda>c. c_userId c = uid) (customers w)))
          (length (filter (\<lambda>p. p_userId p = uid) (pipelines w)))
          (length (filter (\<lambda>j. j_userId j = uid \<and> status j = ''active''
                  \<and> due_within (clock e 0) (clock e (Suc 0) + 7 * 86400000) j) (jobs w)))))"
    if "round_trips_ok e 4"
    using that assms
    by (simp add: round_trips_ok_4 get_dashboard_stats_def requireAuth_def db_op_ok
        countDocuments_jobs_def find_jobs_def find_customers_def find_pipelines_def
        matches_active matches_due due_within_def)
  ultimately show ?thesis using le by simp
qed

theorem dashboard_stats_counts_witness:
  "session w_stats = Some 1
   \<and> get_dashboard_stats (env_at 1000) w_stats = (w_stats, (200, PStats 2 0 0 1))"
proof -
  have h: "session w_stats = Some 1"
    by (simp add: w_stats_def empty_world_def)
  have ok: "round_trips_ok (env_at 1000) 4"
    by (simp add: round_trips_ok_iff env_at_def)
  have c: "clock (env_at 1000) 0 = 1000" "clock (env_at 1000) (Suc 0) = 1000"
    by (simp_all add: env_at_def)
  show ?thesis
    using dashboard_stats_counts [OF h, of "env_at 1000"] ok h
    by (simp add: c due_within_def) (simp add: w_stats_def empty_world_def)
qed


text \<open>
  C4. A login as \<open>desivar\<close> that finds no user of that name, and whose round trips to
  the store succeed, adds to the store one user, two pipelines, three customers and
  three jobs and nothing else; the added records are owned by the new user, and every
  added job refers to one of the added customers and one of the added pipelines. A
  later login with that username, whatever its environment, leaves the four
  collections as they are.
\<close>

theorem first_login_seeds_once:
  assumes "findOne_username ''desivar'' w = None"
    and "\<forall>x \<in> set (users w). githubId x \<noteq> Some ''desivar-github-id''"
    and "round_trips_ok e 10"
  shows "\<exists>w' u ps cs js.
      post_auth_github e (Body (Some ''desivar'')) w = (w', (200, PLogin (view_user u)))
      \<and> users w' = users w @ [u] \<and> pipelines w' = pipelines w @ ps
      \<and> customers w' = customers w @ cs \<and> jobs w' = jobs w @ js
      \<and> length ps = 2 \<and> length cs = 3 \<and> length js = 3
      \<and> session w' = Some (u_id u)
      \<and> list_all (\<lambda>p. p_userId p = u_id u) ps \<and> list_all (\<lambda>c. c_userId c = u_id u) cs
      \<and> list_all (\<lambda>j. j_userId j = u_id u \<and> customerId j \<in> c_id ` set cs
                      \<and> pipelineId j \<in> p_id ` set ps) js
      \<and> (\<forall>e' s. same_records (fst (post_auth_github e' (Body (Some ''desivar'')) (w'\<lparr>session := s\<rparr>))) w')"
proof -
  let ?w' = "first_login_world e w"
  let ?u = "desivar e (nextId w)"
  have again: "same_records (fst (post_auth_github e' (Body (Some ''desivar'')) (?w'\<lparr>session := s\<rparr>))) ?w'"
    for e' s
  proof -
    have "findOne_username ''desivar'' (?w'\<lparr>session := s\<rparr>) = Some ?u"
      using assms(1)
      by (simp add: findOne_username_def first_login_world_def find_append_None)
         (simp add: desivar_def)
    then show ?thesis
      by (cases "fault e' 0")
         (simp_all add: post_auth_github_def db_op_def login_ok_def login_failed_def
           same_records_def)
  qed
  have "post_auth_github e (Body (Some ''desivar'')) w = (?w', (200, PLogin (view_user ?u)))"
    by (rule first_login_eq [OF assms])
  moreover have "users ?w' = users w @ [?u]"
    "pipelines ?w' = pipelines w @ seeded_pipelines e (nextId w) (nextId w + 1)"
    "customers ?w' = customers w @ seeded_customers e (nextId w) (nextId w + 1)"
    "jobs ?w' = jobs w @ seeded_jobs e (nextId w) (nextId w + 1)"
    "session ?w' = Some (u_id ?u)"
    by (simp_all add: first_login_world_def desivar_def)
  moreover have "length (seeded_pipelines e (nextId w) (nextId w + 1)) = 2"
    "length (seeded_customers e (nextId w) (nextId w + 1)) = 3"
    "length (seeded_jobs e (nextId w) (nextId w + 1)) = 3"
    by (simp_all add: seeded_pipelines_def seeded_customers_def seeded_jobs_def)
  moreover have "list_all (\<lambda>p. p_userId p = u_id ?u) (seeded_pipelines e (nextId w) (nextId w + 1))"
    "list_all (\<lambda>c. c_userId c = u_id ?u) (seeded_customers e (nextId w) (nextId w + 1))"
    by (simp_all add: seeded_pipelines_def seeded_customers_def desivar_def)
  moreover have "list_all (\<lambda>j. j_userId j = u_id ?u
        \<and> customerId j \<in> c_id ` set (seeded_customers e (nextId w) (nextId w + 1))
        \<and> pipelineId j \<in> p_id ` set (seeded_pipelines e (nextId w) (nextId w + 1)))
      (seeded_jobs e (nextId w) (nextId w + 1))"
    by (simp add: seeded_pipelines_def seeded_customers_def seeded_jobs_def desivar_def)
  ultimately show ?thesis
    using again by blast
qed

theorem first_login_seeds_once_witness:
  "findOne_username ''desivar'' empty_world = None
   \<and> users empty_world = []
   \<and> round_trips_ok (env_at 0) 10
   \<and> (\<exists>w' u ps cs js.
      post_auth_github (env_at 0) (Body (Some ''desivar'')) empty_world = (w', (200, PLogin (view_user u)))
      \<and> users w' = [u] \<and> pipelines w' = ps \<and> customers w' = cs \<and> jobs w' = js
      \<and> length ps = 2 \<and> length cs = 3 \<and> length js = 3 \<and> session w' = Some (u_id u))"
proof -
  have a: "findOne_username ''desivar'' empty_world = None"
    by (simp add: findOne_username_def empty_world_def)
  have b: "\<forall>x \<in> set (users empty_world). githubId x \<noteq> Some ''desivar-github-id''"
    by (simp add: empty_world_def)
  have c: "round_trips_ok (env_at 0) 10"
    by (simp add: round_trips_ok_iff env_at_def)
  have e: "users empty_world = []" "pipelines empty_world = []" "customers empty_world = []"
    "jobs empty_world = []"
    by (simp_all add: empty_world_def)
  from first_login_seeds_once [OF a b c] a c e(1) show ?thesis
    unfolding e append_Nil by blast
qed

text \<open>
  C5. In a store that any sequence of requests has made of the empty store, every job
  has its progress between 0 and 100, and so has every entry of a listing that
  GET /api/jobs returns from it. Saving a job document whose progress lies outside
  that range, such as 150, is rejected with an error. An authenticated POST /api/jobs
  whose body carries the progress 150 either fails with status 500 and stores
  nothing, or stores one job, whose progress lies between 0 and 100 (the handler does
  not read the field, and the job gets the default 0).
\<close>

theorem progress_always_in_range:
  "jobs_ok (run rs empty_world)
   \<and> (get_jobs e ((run rs empty_world)\<lparr>session := s\<rparr>) = (w', (st, PJobs vs))
        \<longrightarrow> list_all (\<lambda>v. in_range (v_progress v)) vs)
   \<and> (b_progress b = Some 150 \<longrightarrow>
        (fst (snd (post_jobs e b ((run rs empty_world)\<lparr>session := Some uid\<rparr>))) = 500
          \<and> jobs (fst (post_jobs e b ((run rs empty_world)\<lparr>session := Some uid\<rparr>)))
              = jobs (run rs empty_world))
        \<or> (fst (snd (post_jobs e b ((run rs empty_world)\<lparr>session := Some uid\<rparr>))) = 201
          \<and> (\<exists>j. jobs (fst (post_jobs e b ((run rs empty_world)\<lparr>session := Some uid\<rparr>)))
                = jobs (run rs empty_world) @ [j] \<and> in_range (progress j))))
   \<and> (\<not> in_range (nj_progress d) \<longrightarrow> isl (save_job e k d v))"
proof -
  let ?w = "run rs empty_world"
  have ok: "jobs_ok ?w"
    by (rule run_jobs_ok) (simp add: jobs_ok_def empty_world_def)
  have listing: "list_all (\<lambda>v. in_range (v_progress v)) vs"
    if g: "get_jobs e (?w\<lparr>session := s\<rparr>) = (w', (st, PJobs vs))"
  proof (cases s)
    case None
    with g show ?thesis
      by (simp add: get_jobs_def requireAuth_def)
  next
    case (Some u)
    then have "session (?w\<lparr>session := s\<rparr>) = Some u"
      by simp
    from get_jobs_cases [OF this, of e] g
    have l: "list_all2 (listed (?w\<lparr>session := s\<rparr>)) (owned_jobs_sorted u (?w\<lparr>session := s\<rparr>)) vs"
      by auto
    have "\<forall>j \<in> set (owned_jobs_sorted u (?w\<lparr>session := s\<rparr>)). in_range (progress j)"
      using ok by (auto simp: set_owned_jobs_sorted jobs_ok_def list_all_iff)
    then have "list_all in_range (map progress (owned_jobs_sorted u (?w\<lparr>session := s\<rparr>)))"
      by (simp add: list_all_iff)
    with listed_progress [OF l] have "list_all in_range (map v_progress vs)"
      by simp
    then show ?thesis
      by (simp add: list_all_iff)
  qed
  have "(fst (snd (post_jobs e b (?w\<lparr>session := Some uid\<rparr>))) = 500
          \<and> jobs (fst (post_jobs e b (?w\<lparr>session := Some uid\<rparr>))) = jobs ?w)
        \<or> (fst (snd (post_jobs e b (?w\<lparr>session := Some uid\<rparr>))) = 201
          \<and> (\<exists>j. jobs (fst (post_jobs e b (?w\<lparr>session := Some uid\<rparr>))) = jobs ?w @ [j]
                \<and> in_range (progress j)))"
    by (auto simp: post_jobs_def requireAuth_def Let_def save_job_def new_Job_def
        validate_job_def ebind_def db_op_def in_range_def split: sum.splits option.splits)
  moreover have "isl (save_job e k d v)" if "\<not> in_range (nj_progress d)"
    using that by (auto simp: save_job_def validate_job_def in_range_def)
  ultimately show ?thesis
    using ok listing by blast
qed

theorem progress_always_in_range_witness:
  "b_progress over_body = Some 150
   \<and> get_jobs (env_at 0) ((run over_run empty_world)\<lparr>session := Some 0\<rparr>) =
       ((run over_run empty_world)\<lparr>session := Some 0\<rparr>, (200, PJobs over_listing))
   \<and> list_all (\<lambda>v. in_range (v_progress v)) over_listing
   \<and> map v_progress over_listing = [60, 30, 85, 0]
   \<and> jobs_ok (run over_run empty_world)
   \<and> map progress (jobs (run over_run empty_world)) = [60, 30, 85, 0]
   \<and> nj_progress over_doc = 150 \<and> isl (save_job (env_at 0) 0 over_doc empty_world)"
proof -
  have b: "b_progress over_body = Some 150"
    by (simp add: over_body_def)
  have p: "map progress (jobs (run over_run empty_world)) = [60, 30, 85, 0]"
    "map v_progress over_listing = [60, 30, 85, 0]"
    by (simp_all add: over_run_world seeded_jobs_def over_listing_def)
  have d: "nj_progress over_doc = 150" "\<not> in_range (nj_progress over_doc)"
    by (simp_all add: over_doc_def in_range_def)
  from progress_always_in_range [of over_run "env_at 0" "Some 0"
      "(run over_run empty_world)\<lparr>session := Some 0\<rparr>" 200 over_listing over_body 0
      over_doc 0 empty_world]
    over_run_listing b p d
  show ?thesis
    by blast
qed



text \<open>
  C7, as first stated, fails on the order: in a first login on the empty store the
  session is assigned last, after the eight records of \<open>createSampleData\<close> have been
  saved and its message has been written.
\<close>

theorem first_login_order_counterexample:
  "trace (fst (post_auth_github (env_at 0) (Body (Some ''desivar'')) empty_world)) =
     [Inserted ''User'' 0, Inserted ''Pipeline'' 1, Inserted ''Pipeline'' 2,
      Inserted ''Customer'' 3, Inserted ''Customer'' 4, Inserted ''Customer'' 5,
      Inserted ''Job'' 6, Inserted ''Job'' 7, Inserted ''Job'' 8,
      ConsoleLog ''Sample data created for user'', SessionSet 0]"
proof -
  have a: "findOne_username ''desivar'' empty_world = None"
    by (simp add: findOne_username_def empty_world_def)
  have b: "\<forall>x \<in> set (users empty_world). githubId x \<noteq> Some ''desivar-github-id''"
    by (simp add: empty_world_def)
  have c: "round_trips_ok (env_at 0) 10"
    by (simp add: round_trips_ok_iff env_at_def)
  show ?thesis
    by (simp add: first_login_eq [OF a b c] first_login_world_def seeded_events_def)
       (simp add: empty_world_def)
qed

text \<open>
  C7, amended. In a first login, once the user is saved, \<open>createSampleData\<close> runs
  while the session is as the request found it, and the session is assigned only
  after \<open>createSampleData\<close> has returned: the events of the login are the insertion of
  the user, then the events up to the return of \<open>createSampleData\<close>, then the
  assignment of the session, then at most insertions by saves that were still in
  flight when a save of their group was refused. When no round trip fails, all eight
  records are saved before the session is assigned and nothing follows it. Whichever
  round trips of \<open>createSampleData\<close> fail, the login is answered with status 200 and the
  new user, and the session is assigned.
\<close>

theorem first_login_session_after_seeding:
  assumes "findOne_username ''desivar'' w = None"
    and "\<forall>x \<in> set (users w). githubId x \<noteq> Some ''desivar-github-id''"
    and "fault e 0 = None" and "fault e (Suc 0) = None"
  shows "\<exists>w' evs late.
       post_auth_github e (Body (Some ''desivar'')) w =
         (w', (200, PLogin (view_user (desivar e (nextId w)))))
     \<and> session w' = Some (nextId w)
     \<and> trace w' = trace w @ Inserted ''User'' (nextId w) # evs @ SessionSet (nextId w) # late
     \<and> no_session_event evs \<and> only_inserts late
     \<and> trace (fst (createSampleData e 2 (nextId w) (user_saved e w)))
          = trace w @ Inserted ''User'' (nextId w) # evs
     \<and> session (fst (createSampleData e 2 (nextId w) (user_saved e w))) = session w
     \<and> (round_trips_ok e 10 \<longrightarrow> evs = seeded_events (nextId w + 1) \<and> late = [])"
proof -
  let ?x = "createSampleData e 2 (nextId w) (user_saved e w)"
  let ?u = "desivar e (nextId w)"
  from createSampleData_trace [of e 2 "nextId w" "user_saved e w"]
  obtain evs where t: "trace (fst ?x) = trace w @ Inserted ''User'' (nextId w) # evs"
    and n: "no_session_event evs"
    by (auto simp: user_saved_def)
  have s: "session (fst ?x) = session w"
    by (simp add: createSampleData_session user_saved_def)
  have u: "u_id ?u = nextId w"
    by (simp add: desivar_def)
  from land_late_trace [of e 2 "nextId w" "user_saved e w" "fst (login_ok ?u (fst ?x))"]
  obtain late where l: "trace (land (snd ?x) (fst (login_ok ?u (fst ?x))))
        = trace (fst (login_ok ?u (fst ?x))) @ late"
    and o: "only_inserts late"
    and ls: "session (land (snd ?x) (fst (login_ok ?u (fst ?x))))
        = session (fst (login_ok ?u (fst ?x)))"
    by blast
  have p: "post_auth_github e (Body (Some ''desivar'')) w = seeded_login ?u ?x"
    using assms(1,3)
    by (simp add: post_auth_github_def db_op_ok Let_def validate_new_User
        save_new_User [OF assms(2,4)] u)
  have r: "snd (seeded_login ?u ?x) = (200, PLogin (view_user ?u))"
    by (simp add: seeded_login_def login_ok_def)
  have ss: "session (fst (seeded_login ?u ?x)) = Some (nextId w)"
    using ls by (simp add: seeded_login_def login_ok_def u)
  have tt: "trace (fst (seeded_login ?u ?x))
      = trace w @ Inserted ''User'' (nextId w) # evs @ SessionSet (nextId w) # late"
    using l t by (simp add: seeded_login_def login_ok_def u)
  have ok: "evs = seeded_events (nextId w + 1) \<and> late = []" if "round_trips_ok e 10"
  proof -
    have f: "fault e 2 = None" "fault e (2 + 1) = None"
      "fault e (2 + 2) = None" "fault e (2 + 3) = None" "fault e (2 + 4) = None"
      "fault e (2 + 5) = None" "fault e (2 + 6) = None" "fault e (2 + 7) = None"
      using that by (simp_all add: round_trips_ok_iff)
    have x: "snd ?x = []" "trace (fst ?x)
        = trace w @ Inserted ''User'' (nextId w) # seeded_events (nextId w + 1)"
      by (simp_all add: createSampleData_ok [OF f] user_saved_def)
    from x(2) t have "evs = seeded_events (nextId w + 1)"
      by simp
    moreover from x(1) l have "late = []"
      by (simp add: land_def)
    ultimately show ?thesis by simp
  qed
  have "post_auth_github e (Body (Some ''desivar'')) w =
      (fst (seeded_login ?u ?x), (200, PLogin (view_user ?u)))"
    using p r by (metis prod.collapse)
  with ss tt n o t s ok show ?thesis
    by blast
qed

theorem first_login_session_after_seeding_witness:
  "findOne_username ''desivar'' empty_world = None
   \<and> users empty_world = []
   \<and> fault env_racing 0 = None \<and> fault env_racing (Suc 0) = None
   \<and> fault env_racing 2 = Some ''ECONNRESET'' \<and> in_flight env_racing 3
   \<and> snd (post_auth_github env_racing (Body (Some ''desivar'')) empty_world) =
       (200, PLogin (view_user (desivar env_racing 0)))
   \<and> session (fst (post_auth_github env_racing (Body (Some ''desivar'')) empty_world)) = Some 0
   \<and> trace (fst (post_auth_github env_racing (Body (Some ''desivar'')) empty_world)) =
       [Inserted ''User'' 0, ConsoleError ''Error creating sample data: ECONNRESET'',
        SessionSet 0, Inserted ''Pipeline'' 2]"
proof -
  have a: "findOne_username ''desivar'' empty_world = None"
    by (simp add: findOne_username_def empty_world_def)
  have b: "\<forall>x \<in> set (users empty_world). githubId x \<noteq> Some ''desivar-github-id''"
    by (simp add: empty_world_def)
  have f: "fault env_racing 0 = None" "fault env_racing (Suc 0) = None"
    "fault env_racing 2 = Some ''ECONNRESET''" "in_flight env_racing 3"
    by (simp_all add: env_racing_def)
  have n: "nextId empty_world = 0" "trace empty_world = []" "users empty_world = []"
    by (simp_all add: empty_world_def)
  have t: "trace (fst (post_auth_github env_racing (Body (Some ''desivar'')) empty_world)) =
       [Inserted ''User'' 0, ConsoleError ''Error creating sample data: ECONNRESET'',
        SessionSet 0, Inserted ''Pipeline'' 2]"
    by (simp add: post_auth_github_def db_op_def Let_def validate_new_User ebind_def
        save_user_def findOne_username_def seeded_login_def login_ok_def
        createSampleData_def promise_all_saves_def land_def settled_def
        sample_pipeline_def save_pipeline_def validate_pipeline_def required_str_def
        caught_def env_racing_def empty_world_def desivar_def)
  from first_login_session_after_seeding [OF a b f(1,2)] obtain w' evs late where
    p: "post_auth_github env_racing (Body (Some ''desivar'')) empty_world =
         (w', (200, PLogin (view_user (desivar env_racing 0))))"
    and s: "session w' = Some 0"
    unfolding n append_Nil by blast
  from p s t a f n(3) show ?thesis
    by simp
qed

text \<open>
  C8, as first stated, fails on the due date: a job due in the year 10000 is listed
  with the text \<open>+010000-01-01\<close>, which is no \<open>YYYY-MM-DD\<close> date. The job of the store
  below was written by POST /api/jobs with the due date 253402300800000.
\<close>

theorem get_jobs_due_date_counterexample:
  "get_jobs (env_at 0) w_far =
     (w_far, (200, PJobs
        [\<lparr>v_id = 5, v_title = ''Archive'', v_customer = ''ABC Corp'',
          v_pipeline = ''Web Development'', v_currentStep = ''Design'', v_status = ''active'',
          v_dueDate = Some ''+010000-01-01'', v_progress = 0\<rparr>]))
   \<and> \<not> is_ymd ''+010000-01-01''"
proof -
  have w: "w_far = \<lparr>users = [],
      pipelines = [\<lparr>p_id = 4, p_name = ''Web Development'', description = None, steps = [],
                    p_userId = 1, p_createdAt = 0\<rparr>],
      customers = [\<lparr>c_id = 3, c_name = ''ABC Corp'', c_email = ''contact@abccorp.com'',
                    phone = None, c_userId = 1, c_createdAt = 0\<rparr>],
      jobs = [\<lparr>j_id = 5, title = ''Archive'', customerId = 3, pipelineId = 4,
               currentStep = ''Design'', status = ''active'', dueDate = Some 253402300800000,
               progress = 0, j_userId = 1, j_createdAt = 0\<rparr>],
      nextId = 6, trace = [Inserted ''Job'' 5], session = Some 1\<rparr>"
    by (simp add: w_far_def far_body_def post_jobs_def requireAuth_def new_Job_def save_job_def
        validate_job_def required_str_def date_value_def time_clip_def db_op_def env_at_def
        empty_world_def Let_def)
  have "get_jobs (env_at 0) w_far =
     (w_far, (200, PJobs
        [\<lparr>v_id = 5, v_title = ''Archive'', v_customer = ''ABC Corp'',
          v_pipeline = ''Web Development'', v_currentStep = ''Design'', v_status = ''active'',
          v_dueDate = Some ''+010000-01-01'', v_progress = 0\<rparr>]))"
    unfolding w
    by (simp add: get_jobs_def requireAuth_def env_at_def db_op_def owned_jobs_sorted_def
        sort_createdAt_desc_def find_jobs_def matches_owner populate_def findById_customer_def
        findById_pipeline_def format_job_def render_due_def date_defs)
  moreover have "\<not> is_ymd ''+010000-01-01''"
    by (simp add: is_ymd_def)
  ultimately show ?thesis by simp
qed

text \<open>
  C8, amended. With a valid session, a listing that GET /api/jobs returns stands, entry
  for entry, for the jobs of the session user in the order of their creation time,
  latest first; the customer and the pipeline of an entry are the names of the
  records the job refers to; the due date of an entry is null when the job has none
  and is else the date part of its ISO rendering, a \<open>YYYY-MM-DD\<close> text exactly when the
  year of the due date lies between 0 and 9999.
\<close>

theorem get_jobs_listing:
  assumes "session w = Some uid" and "get_jobs e w = (w', (st, PJobs vs))"
  shows "\<exists>js. mset js = mset (filter (\<lambda>j. j_userId j = uid) (jobs w))
     \<and> sorted_wrt (\<lambda>a b. j_createdAt b \<le> j_createdAt a) js
     \<and> list_all2 (listed w) js vs \<and> list_all2 due_rendered js vs"
proof -
  from get_jobs_cases [OF assms(1), of e] assms(2)
  have l: "list_all2 (listed w) (owned_jobs_sorted uid w) vs"
    by auto
  then have "list_all2 due_rendered (owned_jobs_sorted uid w) vs"
    by (rule list_all2_weaken) (rule listed_due_rendered)
  with l mset_owned_jobs_sorted [of uid w] sorted_owned_jobs_sorted [of uid w]
  show ?thesis by blast
qed

theorem get_jobs_listing_witness:
  "session (w_two\<lparr>session := Some 1\<rparr>) = Some 1
   \<and> (\<exists>js. mset js = mset (filter (\<lambda>j. j_userId j = 1) (jobs (w_two\<lparr>session := Some 1\<rparr>)))
     \<and> sorted_wrt (\<lambda>a b. j_createdAt b \<le> j_createdAt a) js
     \<and> list_all2 (listed (w_two\<lparr>session := Some 1\<rparr>)) js
        [\<lparr>v_id = 12, v_title = ''c'', v_customer = ''ABC Corp'', v_pipeline = ''Web Development'',
          v_currentStep = ''s'', v_status = ''paused'', v_dueDate = None, v_progress = 0\<rparr>,
         \<lparr>v_id = 10, v_title = ''a'', v_customer = ''ABC Corp'', v_pipeline = ''Web Development'',
          v_currentStep = ''s'', v_status = ''active'', v_dueDate = Some ''2025-07-01'',
          v_progress = 60\<rparr>])
   \<and> is_ymd ''2025-07-01''"
proof -
  have s: "session (w_two\<lparr>session := Some 1\<rparr>) = Some 1"
    by simp
  have "is_ymd ''2025-07-01''"
    by (simp add: is_ymd_def is_digit_def)
  with get_jobs_listing [OF s get_jobs_w_two] s show ?thesis
    by blast
qed

text \<open>
  C9, as first stated, fails on the log: the middleware lets the request through, the
  store refuses the query of GET /api/jobs, the answer is status 500 with the message
  of the route, and the console of the server stays empty.
\<close>

theorem storage_failure_not_logged_counterexample:
  "handle (env_failing 0 ''connect ECONNREFUSED 127.0.0.1:27017'') GetJobs
       (empty_world\<lparr>session := Some 1\<rparr>) =
     (empty_world\<lparr>session := Some 1\<rparr>, (500, PError ''Failed to fetch jobs''))
   \<and> trace (empty_world\<lparr>session := Some 1\<rparr>) = []"
  by (simp add: handle_def route_handler_def get_jobs_def requireAuth_def db_op_def
      env_failing_def empty_world_def)

text \<open>
  C9, amended. On a route behind \<open>requireAuth\<close>, with a valid session, every failure
  is answered with status 500 and a fixed message that does not depend on the detail
  of the failure. A failure raised in the middleware ahead of the route goes to the
  error-handling middleware, which writes the detail to the console and answers
  \<open>Internal server error\<close>. When the middleware lets the request through and any
  round trip of the route to the store fails, the \<open>catch\<close> block of the handler answers
  with the message of the route and writes nothing to the console. An answer of status
  500 carries one of these two messages.
\<close>

theorem storage_failure_generic_500:
  assumes "authenticated r" and "session w = Some uid"
  shows "(middleware_fault e = Some d \<longrightarrow>
          handle e r w = (w\<lparr>trace := trace w @ [ConsoleError d]\<rparr>,
                          (500, PError ''Internal server error'')))
     \<and> (middleware_fault e = None \<and> k < round_trips r uid w \<and> fault e k = Some d \<longrightarrow>
          snd (handle e r w) = (500, PError (generic_message r))
          \<and> trace (fst (handle e r w)) = trace w)
     \<and> (fst (snd (handle e r w)) = 500 \<longrightarrow>
          snd (handle e r w) = (500, PError (generic_message r))
          \<or> snd (handle e r w) = (500, PError ''Internal server error''))"
proof -
  have a: "handle e r w = (w\<lparr>trace := trace w @ [ConsoleError d]\<rparr>,
      (500, PError ''Internal server error''))" if "middleware_fault e = Some d"
    using that by (simp add: handle_def error_middleware_def)
  have b: "snd (handle e r w) = (500, PError (generic_message r))
      \<and> trace (fst (handle e r w)) = trace w"
    if m: "middleware_fault e = None" and k: "k < round_trips r uid w" "fault e k = Some d"
  proof -
    have h: "handle e r w = route_handler e r w"
      using m by (simp add: handle_def)
    from route_any_fault [OF assms k]
    have s: "snd (route_handler e r w) = (500, PError (generic_message r))" .
    then have "fst (snd (route_handler e r w)) = 500"
      by simp
    with route_500_shape [OF assms, of e] have "trace (fst (route_handler e r w)) = trace w"
      by blast
    with s h show ?thesis by simp
  qed
  have c: "snd (handle e r w) = (500, PError (generic_message r))
      \<or> snd (handle e r w) = (500, PError ''Internal server error'')"
    if "fst (snd (handle e r w)) = 500"
  proof (cases "middleware_fault e")
    case None
    then have "handle e r w = route_handler e r w"
      by (simp add: handle_def)
    with that route_500_shape [OF assms, of e] show ?thesis
      by simp
  next
    case (Some d')
    then show ?thesis
      by (simp add: handle_def error_middleware_def)
  qed
  from a b c show ?thesis
    by blast
qed

theorem storage_failure_generic_500_witness:
  "authenticated GetCustomers \<and> session (w_two\<lparr>session := Some 1\<rparr>) = Some 1
   \<and> middleware_fault (env_failing 2 ''connect ECONNREFUSED 127.0.0.1:27017'') = None
   \<and> 2 < round_trips GetCustomers 1 (w_two\<lparr>session := Some 1\<rparr>)
   \<and> fault (env_failing 2 ''connect ECONNREFUSED 127.0.0.1:27017'') 2
       = Some ''connect ECONNREFUSED 127.0.0.1:27017''
   \<and> snd (handle (env_failing 2 ''connect ECONNREFUSED 127.0.0.1:27017'') GetCustomers
         (w_two\<lparr>session := Some 1\<rparr>)) = (500, PError ''Failed to fetch customers'')
   \<and> trace (fst (handle (env_failing 2 ''connect ECONNREFUSED 127.0.0.1:27017'') GetCustomers
         (w_two\<lparr>session := Some 1\<rparr>))) = []
   \<and> middleware_fault env_no_session = Some ''MongoServerSelectionError''
   \<and> handle env_no_session GetCustomers (w_two\<lparr>session := Some 1\<rparr>) =
       (w_two\<lparr>session := Some 1, trace := [ConsoleError ''MongoServerSelectionError'']\<rparr>,
        (500, PError ''Internal server error''))"
proof -
  have a: "authenticated GetCustomers"
    by (simp add: authenticated_def)
  have s: "session (w_two\<lparr>session := Some 1\<rparr>) = Some 1"
    by simp
  have f: "middleware_fault (env_failing 2 ''connect ECONNREFUSED 127.0.0.1:27017'') = None"
    "2 < round_trips GetCustomers 1 (w_two\<lparr>session := Some 1\<rparr>)"
    "fault (env_failing 2 ''connect ECONNREFUSED 127.0.0.1:27017'') 2
       = Some ''connect ECONNREFUSED 127.0.0.1:27017''"
    by (simp_all add: env_failing_def round_trips_def find_customers_def w_two_def
        empty_world_def)
  have t: "trace (w_two\<lparr>session := Some 1\<rparr>) = []"
    by (simp add: w_two_def empty_world_def)
  have g: "generic_message GetCustomers = ''Failed to fetch customers''"
    by (simp add: generic_message_def)
  have m: "middleware_fault env_no_session = Some ''MongoServerSelectionError''"
    by (simp add: env_no_session_def)
  note th = storage_failure_generic_500 [OF a s,
      of "env_failing 2 ''connect ECONNREFUSED 127.0.0.1:27017''"
         "''connect ECONNREFUSED 127.0.0.1:27017''" 2]
  from th f have r: "snd (handle (env_failing 2 ''connect ECONNREFUSED 127.0.0.1:27017'')
      GetCustomers (w_two\<lparr>session := Some 1\<rparr>)) = (500, PError ''Failed to fetch customers'')"
    "trace (fst (handle (env_failing 2 ''connect ECONNREFUSED 127.0.0.1:27017'')
      GetCustomers (w_two\<lparr>session := Some 1\<rparr>))) = trace (w_two\<lparr>session := Some 1\<rparr>)"
    unfolding g by blast+
  from r(2) t have r2: "trace (fst (handle (env_failing 2 ''connect ECONNREFUSED 127.0.0.1:27017'')
      GetCustomers (w_two\<lparr>session := Some 1\<rparr>))) = []"
    by (simp only:)
  from storage_failure_generic_500 [OF a s, of env_no_session "''MongoServerSelectionError''"] m
  have "handle env_no_session GetCustomers (w_two\<lparr>session := Some 1\<rparr>) =
       (w_two\<lparr>session := Some 1, trace := trace (w_two\<lparr>session := Some 1\<rparr>)
            @ [ConsoleError ''MongoServerSelectionError'']\<rparr>,
        (500, PError ''Internal server error''))"
    by blast
  then have e: "handle env_no_session GetCustomers (w_two\<lparr>session := Some 1\<rparr>) =
       (w_two\<lparr>session := Some 1, trace := [ConsoleError ''MongoServerSelectionError'']\<rparr>,
        (500, PError ''Internal server error''))"
    unfolding t by simp
  from a s f r(1) r2 m e show ?thesis
    by blast
qed

text \<open>
  C10. An authenticated POST /api/jobs whose body has a title, a current step, a
  customer and a pipeline reference, and no due date that fails to parse, is stored when
  the store answers: the job carries the two references as the body gave them, whoever
  owns the records they name (nothing is assumed of them, not even that they exist),
  the session user as owner, status \<open>active\<close> and progress 0, whatever \<open>status\<close> and
  \<open>progress\<close> the body holds.
\<close>

theorem post_jobs_no_ownership_check:
  assumes "session w = Some uid"
    and "b_title b = Some t" and "t \<noteq> []"
    and "b_customerId b = Some c" and "b_pipelineId b = Some p"
    and "b_currentStep b = Some st" and "st \<noteq> []"
    and "truthy (b_dueDate b) \<Longrightarrow> new_Date (b_dueDate b) \<noteq> InvalidDate"
    and "fault e 0 = None"
  shows "post_jobs e b w =
     (w\<lparr>nextId := Suc (nextId w),
        jobs := jobs w @
          [\<lparr>j_id = nextId w, title = t, customerId = c, pipelineId = p, currentStep = st,
            status = ''active'', dueDate = stored_due (b_dueDate b), progress = 0,
            j_userId = uid, j_createdAt = clock e 0\<rparr>],
        trace := trace w @ [Inserted ''Job'' (nextId w)]\<rparr>,
      (201, PJobId (nextId w)))"
  using assms
  by (simp add: post_jobs_def requireAuth_def new_Job_def save_job_def validate_job_def
      required_str_def db_op_ok stored_due_def date_value_def Let_def)

theorem post_jobs_no_ownership_check_witness:
  "session (w_owner\<lparr>session := Some 2\<rparr>) = Some 2
   \<and> c_userId (customers w_owner ! 0) = 1 \<and> c_id (customers w_owner ! 0) = 3
   \<and> p_userId (pipelines w_owner ! 0) = 1 \<and> p_id (pipelines w_owner ! 0) = 4
   \<and> b_status cross_body = Some ''completed'' \<and> b_progress cross_body = Some 150
   \<and> post_jobs (env_at 0) cross_body (w_owner\<lparr>session := Some 2\<rparr>) =
     (w_owner\<lparr>session := Some 2, nextId := 6,
        jobs := [\<lparr>j_id = 5, title = ''Intruder'', customerId = 3, pipelineId = 4,
            currentStep = ''Design'', status = ''active'', dueDate = None, progress = 0,
            j_userId = 2, j_createdAt = 0\<rparr>],
        trace := [Inserted ''Job'' 5]\<rparr>,
      (201, PJobId 5))"
proof -
  have b: "b_title cross_body = Some ''Intruder''" "''Intruder'' \<noteq> []"
    "b_customerId cross_body = Some 3" "b_pipelineId cross_body = Some 4"
    "b_currentStep cross_body = Some ''Design''" "''Design'' \<noteq> []"
    "truthy (b_dueDate cross_body) \<Longrightarrow> new_Date (b_dueDate cross_body) \<noteq> InvalidDate"
    "b_status cross_body = Some ''completed''" "b_progress cross_body = Some 150"
    by (simp_all add: cross_body_def)
  have s: "session (w_owner\<lparr>session := Some 2\<rparr>) = Some 2"
    by simp
  have f: "fault (env_at 0) 0 = None"
    by (simp add: env_at_def)
  have o: "c_userId (customers w_owner ! 0) = 1" "c_id (customers w_owner ! 0) = 3"
    "p_userId (pipelines w_owner ! 0) = 1" "p_id (pipelines w_owner ! 0) = 4"
    by (simp_all add: w_owner_def empty_world_def)
  have "post_jobs (env_at 0) cross_body (w_owner\<lparr>session := Some 2\<rparr>) =
     (w_owner\<lparr>session := Some 2, nextId := 6,
        jobs := [\<lparr>j_id = 5, title = ''Intruder'', customerId = 3, pipelineId = 4,
            currentStep = ''Design'', status = ''active'', dueDate = None, progress = 0,
            j_userId = 2, j_createdAt = 0\<rparr>],
        trace := [Inserted ''Job'' 5]\<rparr>,
      (201, PJobId 5))"
    using post_jobs_no_ownership_check [OF s b(1-7) f]
    by (simp add: w_owner_def empty_world_def env_at_def stored_due_def date_value_def cross_body_def)
  with s o b(8,9) show ?thesis
    by blast
qed

end
